theory Spec2Isabelle
  imports Complex_Main
begin

section \<open>JavaScript values and the built-ins the code calls\<close>

text \<open>
  The server handles the JSON data of the backend and of the tool-calling protocol as
  untyped JavaScript values. A value is \<open>undefined\<close>, \<open>null\<close>, a boolean, a number, a
  string, an array or a plain object; an object is the list of its own properties in
  enumeration order, under distinct names. A number is represented by the rational it
  denotes: the code only tests numbers against zero, counts with them and prints them.
  A string is a list of characters, as the code units of the JavaScript string.
\<close>

datatype jsval =
    Undefined
  | Null
  | Bool bool
  | Num rat
  | Str string
  | Arr "jsval list"
  | Obj "(string \<times> jsval) list"

text \<open>
  A thrown value. \<open>Error\<close> is what the code itself throws with \<open>new Error(message)\<close>;
  the others are raised by the runtime: \<open>TypeError\<close> by a property read on \<open>null\<close> or
  \<open>undefined\<close>, by a call of something that is not a function and by the conversion
  to a string of an object that cannot be converted, \<open>SyntaxError\<close> by \<open>JSON.parse\<close>,
  \<open>FetchError\<close> by \<open>fetch\<close>, \<open>URIError\<close> by \<open>encodeURIComponent\<close>. The messages
  of the runtime's errors are those of V8. The handlers read nothing but
  \<open>error.message\<close>.
\<close>

datatype error =
    Error string
  | TypeError string
  | SyntaxError string
  | FetchError string
  | URIError string

fun message :: "error \<Rightarrow> string" where
  "message (Error m) = m"
| "message (TypeError m) = m"
| "message (SyntaxError m) = m"
| "message (FetchError m) = m"
| "message (URIError m) = m"

text \<open>What \<open>if (v)\<close>, \<open>!v\<close>, \<open>a && b\<close> and \<open>a || b\<close> test.\<close>

fun truthy :: "jsval \<Rightarrow> bool" where
  "truthy Undefined = False"
| "truthy Null = False"
| "truthy (Bool b) = b"
| "truthy (Num n) = (n \<noteq> 0)"
| "truthy (Str s) = (s \<noteq> [])"
| "truthy (Arr xs) = True"
| "truthy (Obj kvs) = True"

text \<open>Decimal digits of a natural number, as a template literal prints an integer.\<close>

fun show_nat :: "nat \<Rightarrow> string" where
  "show_nat n =
     (if n < 10 then [''0123456789'' ! n]
      else show_nat (n div 10) @ [''0123456789'' ! (n mod 10)])"

declare show_nat.simps [simp del]

text \<open>
  The own enumerable properties of a value, in the order \<open>Object.entries\<close> lists them:
  the properties of an object, the elements of an array under their indices, the
  characters of a string under theirs.
\<close>

fun own_entries :: "jsval \<Rightarrow> (string \<times> jsval) list" where
  "own_entries (Obj kvs) = kvs"
| "own_entries (Arr xs) = zip (map show_nat [0..<length xs]) xs"
| "own_entries (Str s) = zip (map show_nat [0..<length s]) (map (\<lambda>c. Str [c]) s)"
| "own_entries v = []"

text \<open>
  The property read \<open>v.k\<close>. It throws on \<open>null\<close> and \<open>undefined\<close>; an absent property
  reads as \<open>undefined\<close>; arrays and strings have a \<open>length\<close>. (The property names the
  code reads are none of those that the built-in prototypes define.)
\<close>

fun getprop :: "jsval \<Rightarrow> string \<Rightarrow> error + jsval" where
  "getprop Undefined k =
     Inl (TypeError (''Cannot read properties of undefined (reading '' @ [CHR 0x27] @ k @ [CHR 0x27] @ '')''))"
| "getprop Null k =
     Inl (TypeError (''Cannot read properties of null (reading '' @ [CHR 0x27] @ k @ [CHR 0x27] @ '')''))"
| "getprop (Arr xs) k =
     Inr (if k = ''length'' then Num (of_nat (length xs))
          else case map_of (own_entries (Arr xs)) k of None \<Rightarrow> Undefined | Some x \<Rightarrow> x)"
| "getprop (Str s) k =
     Inr (if k = ''length'' then Num (of_nat (length s))
          else case map_of (own_entries (Str s)) k of None \<Rightarrow> Undefined | Some x \<Rightarrow> x)"
| "getprop v k =
     Inr (case map_of (own_entries v) k of None \<Rightarrow> Undefined | Some x \<Rightarrow> x)"

text \<open>
  The optional read \<open>v?.k\<close>: \<open>undefined\<close> where \<open>v\<close> is \<open>null\<close> or \<open>undefined\<close>.
  It is also the plain read \<open>v.k\<close> at the places where \<open>v\<close> is known to be neither,
  because the code has read a property of \<open>v\<close> before or has tested \<open>v\<close> truthy: there
  the read cannot throw.
\<close>

fun getprop_opt :: "jsval \<Rightarrow> string \<Rightarrow> jsval" where
  "getprop_opt Undefined k = Undefined"
| "getprop_opt Null k = Undefined"
| "getprop_opt v k = (case getprop v k of Inl e \<Rightarrow> Undefined | Inr x \<Rightarrow> x)"

section \<open>The transport client\<close>

record request =
  req_method :: string
  url :: string
  headers :: "(string \<times> string) list"
  body :: "string option"

record response =
  ok :: bool
  status :: nat
  statusText :: string
  body_text :: string

text \<open>
  A number as the runtime has it: a finite value, an infinity, or \<open>NaN\<close>. It appears
  where a string is converted to a number for a comparison.
\<close>

datatype jsnum = NaN | Fin rat | PlusInfinity | MinusInfinity

text \<open>
  The environment of a run: the configuration read at start-up, the backend behind
  \<open>fetch\<close>, and the built-ins of the JavaScript runtime that the code calls and that are
  not part of the repository. The backend answers a request knowing the requests that
  came before it; \<open>fetch\<close> either rejects or resolves to a response. \<open>JSON.parse\<close>,
  \<open>encodeURIComponent\<close> and \<open>new URL(s).href\<close> return or throw. The printing of a
  number (\<open>Number_toString\<close>), the reading of a string as a number
  (\<open>StringToNumber\<close>), \<open>toUpperCase\<close> and the serialisation of a query are total
  functions. So are the two forms of \<open>JSON.stringify\<close>: a value of the model has no
  cycle and no function in it, and an own property \<open>toJSON\<close> that is not a function is
  ignored. The conversion of arrays and objects to strings is not a parameter: it is
  defined below, and it can throw.
\<close>

record env =
  ONSHAPE_API_URL :: string
  authHeader :: string
  fetch :: "request list \<Rightarrow> request \<Rightarrow> error + response"
  JSON_parse :: "string \<Rightarrow> error + jsval"
  JSON_stringify :: "jsval \<Rightarrow> string"
  JSON_stringify_indent :: "jsval \<Rightarrow> string"
  Number_toString :: "rat \<Rightarrow> string"
  StringToNumber :: "string \<Rightarrow> jsnum"
  toUpperCase :: "string \<Rightarrow> string"
  encodeURIComponent :: "string \<Rightarrow> error + string"
  URLSearchParams_toString :: "(string \<times> string) list \<Rightarrow> string"
  URL_href :: "string \<Rightarrow> error + string"

text \<open>
  A computation that issues requests: it takes the requests issued so far and returns
  its value, or the error it throws, with the requests issued after it.
\<close>

type_synonym 'a io = "request list \<Rightarrow> (error + 'a) \<times> request list"

definition io_bind :: "'a io \<Rightarrow> ('a \<Rightarrow> 'b io) \<Rightarrow> 'b io" where
  "io_bind m f sent =
     (case m sent of
        (Inl e, sent') \<Rightarrow> (Inl e, sent')
      | (Inr x, sent') \<Rightarrow> f x sent')"

definition io_pure :: "error + 'a \<Rightarrow> 'a io" where
  "io_pure r sent = (r, sent)"

definition sum_bind :: "error + 'a \<Rightarrow> ('a \<Rightarrow> error + 'b) \<Rightarrow> error + 'b" where
  "sum_bind r f = (case r of Inl e \<Rightarrow> Inl e | Inr x \<Rightarrow> f x)"

text \<open>
  The request that \<open>onshapeApiRequest(method, path, body?, queryParams?)\<close> hands to
  \<open>fetch\<close>: the URL is the base URL, the path and, when \<open>queryParams\<close> is given, a
  question mark and its serialisation; a body is sent when the argument is truthy.
\<close>

definition request_options ::
  "env \<Rightarrow> string \<Rightarrow> string \<Rightarrow> jsval \<Rightarrow> (string \<times> string) list option \<Rightarrow> request" where
  "request_options env meth path bdy queryParams =
     \<lparr>req_method = meth,
      url = ONSHAPE_API_URL env @ path @
        (case queryParams of
           Some q \<Rightarrow> ''?'' @ URLSearchParams_toString env q
         | None \<Rightarrow> []),
      headers =
        [(''accept'', ''application/json;charset=UTF-8; qs=0.09''),
         (''Authorization'', authHeader env),
         (''Content-Type'', ''application/json;charset=UTF-8; qs=0.09'')],
      body = (if truthy bdy then Some (JSON_stringify env bdy) else None)\<rparr>"

text \<open>
  \<open>onshapeApiRequest\<close>. The \<open>catch\<close> of the source logs the error and throws it
  again, so an error leaves the function as it was raised.
\<close>

definition onshapeApiRequest ::
  "env \<Rightarrow> string \<Rightarrow> string \<Rightarrow> jsval \<Rightarrow> (string \<times> string) list option \<Rightarrow> jsval io" where
  "onshapeApiRequest env meth path bdy queryParams sent =
     (let options = request_options env meth path bdy queryParams
      in
        (case fetch env sent options of
           Inl e \<Rightarrow> Inl e
         | Inr resp \<Rightarrow>
             if \<not> ok resp then
               Inl (Error (''Onshape API Error: '' @ show_nat (status resp) @ '' '' @
                           statusText resp @ '' - '' @ body_text resp))
             else if body_text resp \<noteq> [] then JSON_parse env (body_text resp)
             else Inr (Obj []),
         sent @ [options]))"

section \<open>More of the runtime: coercions, array methods, string replacement\<close>

text \<open>
  The conversion of a value to a string, as a template literal, \<open>replace\<close> and
  \<open>join\<close> do it. A string is itself; \<open>undefined\<close>, \<open>null\<close> and the booleans print
  as their names; a number prints as the runtime prints it. An array prints as its
  \<open>join(",")\<close>. A plain object prints as \<open>[object Object]\<close> through the \<open>toString\<close> it
  inherits; an own property \<open>toString\<close> hides the inherited one, and since no value of
  the model is a function the conversion then finds nothing to call (the inherited
  \<open>valueOf\<close> returns the object itself) and throws.

  \<open>xs.join(sep)\<close> on the elements of an array converts them from left to right;
  \<open>null\<close> and \<open>undefined\<close> elements print as the empty string.
\<close>

fun js_String :: "env \<Rightarrow> jsval \<Rightarrow> error + string"
  and join_elems :: "env \<Rightarrow> string \<Rightarrow> jsval list \<Rightarrow> error + string" where
  "js_String env (Str s) = Inr s"
| "js_String env Undefined = Inr ''undefined''"
| "js_String env Null = Inr ''null''"
| "js_String env (Bool b) = Inr (if b then ''true'' else ''false'')"
| "js_String env (Num x) = Inr (Number_toString env x)"
| "js_String env (Arr xs) = join_elems env '','' xs"
| "js_String env (Obj kvs) =
     (if ''toString'' \<in> set (map fst kvs) then
        Inl (TypeError ''Cannot convert object to primitive value'')
      else Inr ''[object Object]'')"
| "join_elems env sep [] = Inr []"
| "join_elems env sep (x # xs) =
     (case (if x = Null \<or> x = Undefined then Inr [] else js_String env x) of
        Inl e \<Rightarrow> Inl e
      | Inr s \<Rightarrow>
          if xs = [] then Inr s
          else (case join_elems env sep xs of
                  Inl e \<Rightarrow> Inl e
                | Inr r \<Rightarrow> Inr (s @ sep @ r)))"

text \<open>
  A template literal, as the list of its parts from left to right: a part is a piece of
  text or an expression converted to a string, and each can throw. The first throw ends
  the evaluation; otherwise the literal is the concatenation of the parts. Consecutive
  statements that append template literals to a variable are one such list.
\<close>

fun template :: "(error + string) list \<Rightarrow> error + string" where
  "template [] = Inr []"
| "template (p # ps) =
     (case p of
        Inl e \<Rightarrow> Inl e
      | Inr s \<Rightarrow>
          (case template ps of
             Inl e \<Rightarrow> Inl e
           | Inr r \<Rightarrow> Inr (s @ r)))"

text \<open>The part \<open>${v.k}\<close> of a template literal: the read of the property, then its conversion.\<close>

definition prop_text :: "env \<Rightarrow> jsval \<Rightarrow> string \<Rightarrow> error + string" where
  "prop_text env v k = sum_bind (getprop v k) (js_String env)"

text \<open>\<open>a || b\<close> on values.\<close>

definition js_or :: "jsval \<Rightarrow> jsval \<Rightarrow> jsval" where
  "js_or a b = (if truthy a then a else b)"

text \<open>
  The conversion of a value to a number, as a comparison does it. \<open>undefined\<close> is
  \<open>NaN\<close>, \<open>null\<close> is zero, \<open>false\<close> and \<open>true\<close> are zero and one; a string is read
  as a number by the runtime; an array or an object is first converted to a string, which
  can throw, and the string is read as a number.
\<close>

fun js_Number :: "env \<Rightarrow> jsval \<Rightarrow> error + jsnum" where
  "js_Number env Undefined = Inr NaN"
| "js_Number env Null = Inr (Fin 0)"
| "js_Number env (Bool b) = Inr (Fin (if b then 1 else 0))"
| "js_Number env (Num x) = Inr (Fin x)"
| "js_Number env (Str s) = Inr (StringToNumber env s)"
| "js_Number env v = sum_bind (js_String env v) (\<lambda>s. Inr (StringToNumber env s))"

text \<open>\<open>v > n\<close> for a number \<open>n\<close>: the comparison is false when \<open>v\<close> converts to \<open>NaN\<close>.\<close>

definition js_gt :: "env \<Rightarrow> jsval \<Rightarrow> rat \<Rightarrow> error + bool" where
  "js_gt env v n =
     sum_bind (js_Number env v) (\<lambda>x.
       Inr (case x of
              Fin y \<Rightarrow> n < y
            | PlusInfinity \<Rightarrow> True
            | _ \<Rightarrow> False))"

text \<open>
  The guard \<open>x && x.length > 0\<close>. A truthy value is neither \<open>null\<close> nor \<open>undefined\<close>,
  so the read of its \<open>length\<close> does not throw; the comparison can.
\<close>

definition nonempty :: "env \<Rightarrow> jsval \<Rightarrow> error + bool" where
  "nonempty env x =
     (if truthy x then js_gt env (getprop_opt x ''length'') 0 else Inr False)"

text \<open>\<open>typeof v === 'object'\<close>.\<close>

fun typeof_object :: "jsval \<Rightarrow> bool" where
  "typeof_object Null = True"
| "typeof_object (Arr xs) = True"
| "typeof_object (Obj kvs) = True"
| "typeof_object v = False"

text \<open>
  The call \<open>v.m(...)\<close> of an array method (\<open>forEach\<close>, \<open>find\<close>, \<open>join\<close>) on a value:
  the elements when \<open>v\<close> is an array, and a \<open>TypeError\<close> otherwise, since no other JSON
  value has such a method. \<open>expr\<close> is the text of the expression, which the runtime
  quotes in the message.
\<close>

fun array_method :: "jsval \<Rightarrow> string \<Rightarrow> string \<Rightarrow> error + jsval list" where
  "array_method (Arr xs) expr m = Inr xs"
| "array_method Undefined expr m =
     Inl (TypeError (''Cannot read properties of undefined (reading '' @ [CHR 0x27] @ m @ [CHR 0x27] @ '')''))"
| "array_method Null expr m =
     Inl (TypeError (''Cannot read properties of null (reading '' @ [CHR 0x27] @ m @ [CHR 0x27] @ '')''))"
| "array_method v expr m = Inl (TypeError (expr @ ''.'' @ m @ '' is not a function''))"

text \<open>A loop body run over a list in order; the first throw ends the loop.\<close>

fun iterate :: "('a \<Rightarrow> 'b \<Rightarrow> error + 'b) \<Rightarrow> 'a list \<Rightarrow> 'b \<Rightarrow> error + 'b" where
  "iterate f [] acc = Inr acc"
| "iterate f (x # xs) acc =
     (case f x acc of
        Inl e \<Rightarrow> Inl e
      | Inr acc' \<Rightarrow> iterate f xs acc')"

text \<open>
  \<open>v.forEach(callback)\<close> where the callback appends to a variable of the enclosing
  function: the callback takes the element and the variable's value and returns the new
  value.
\<close>

definition forEach :: "jsval \<Rightarrow> string \<Rightarrow> (jsval \<Rightarrow> 'b \<Rightarrow> error + 'b) \<Rightarrow> 'b \<Rightarrow> error + 'b" where
  "forEach v expr f acc = sum_bind (array_method v expr ''forEach'') (\<lambda>xs. iterate f xs acc)"

text \<open>\<open>xs.find(x => x.name === name)\<close> on the elements of an array.\<close>

fun find_named :: "jsval list \<Rightarrow> string \<Rightarrow> error + jsval" where
  "find_named [] name = Inr Undefined"
| "find_named (x # xs) name =
     (case getprop x ''name'' of
        Inl e \<Rightarrow> Inl e
      | Inr v \<Rightarrow> if v = Str name then Inr x else find_named xs name)"

text \<open>
  \<open>xs.filter(p)\<close> on a list, with a test that can throw: the elements are tested from
  left to right and the first throw ends the call.
\<close>

fun js_filter :: "('a \<Rightarrow> error + bool) \<Rightarrow> 'a list \<Rightarrow> error + 'a list" where
  "js_filter p [] = Inr []"
| "js_filter p (x # xs) =
     (case p x of
        Inl e \<Rightarrow> Inl e
      | Inr keep \<Rightarrow>
          (case js_filter p xs of
             Inl e \<Rightarrow> Inl e
           | Inr ys \<Rightarrow> Inr (if keep then x # ys else ys)))"

text \<open>
  \<open>s.replace(pattern, replacement)\<close> with a string pattern: the first occurrence of the
  pattern is replaced. In the replacement, \<open>$$\<close> stands for a dollar sign, \<open>$&\<close> for the
  matched text, \<open>$`\<close> for the text before the match and \<open>$'\<close> for the text after it;
  every other character stands for itself (a string pattern has no capture groups).
\<close>

fun find_first :: "string \<Rightarrow> string \<Rightarrow> (string \<times> string) option" where
  "find_first pat [] = (if pat = [] then Some ([], []) else None)"
| "find_first pat (c # cs) =
     (if take (length pat) (c # cs) = pat then Some ([], drop (length pat) (c # cs))
      else map_option (\<lambda>(pre, post). (c # pre, post)) (find_first pat cs))"

fun expand :: "string \<Rightarrow> string \<Rightarrow> string \<Rightarrow> string \<Rightarrow> string" where
  "expand [] matched pre post = []"
| "expand (c # cs) matched pre post =
     (if c = CHR ''$'' then
        (case cs of
           [] \<Rightarrow> [c]
         | d # ds \<Rightarrow>
             if d = CHR ''$'' then CHR ''$'' # expand ds matched pre post
             else if d = CHR ''&'' then matched @ expand ds matched pre post
             else if d = CHR 0x60 then pre @ expand ds matched pre post
             else if d = CHR 0x27 then post @ expand ds matched pre post
             else c # expand cs matched pre post)
      else c # expand cs matched pre post)"

definition js_replace :: "string \<Rightarrow> string \<Rightarrow> string \<Rightarrow> string" where
  "js_replace s pat replacement =
     (case find_first pat s of
        None \<Rightarrow> s
      | Some (pre, post) \<Rightarrow> pre @ expand replacement pat pre post @ post)"

section \<open>The helpers of the API module\<close>

text \<open>
  A \<open>try\<close> block with its \<open>catch\<close>: the handler turns the thrown error into a value, and
  the requests issued before the throw stay issued.
\<close>

definition try_catch :: "'a io \<Rightarrow> (error \<Rightarrow> 'a) \<Rightarrow> request list \<Rightarrow> 'a \<times> request list" where
  "try_catch block handler sent =
     (case block sent of
        (Inl e, sent') \<Rightarrow> (handler e, sent')
      | (Inr r, sent') \<Rightarrow> (r, sent'))"

text \<open>\<open>getDefaultWorkspace(documentId)\<close>: the \<open>try\<close> block, and the function.\<close>

definition getDefaultWorkspace_try :: "env \<Rightarrow> string \<Rightarrow> jsval io" where
  "getDefaultWorkspace_try env documentId =
     io_bind (onshapeApiRequest env ''GET'' (''/documents/'' @ documentId) Undefined None)
       (\<lambda>docInfo. io_pure
          (sum_bind (getprop docInfo ''defaultWorkspace'')
             (\<lambda>defaultWorkspace. Inr (getprop_opt defaultWorkspace ''id''))))"

definition getDefaultWorkspace :: "env \<Rightarrow> string \<Rightarrow> request list \<Rightarrow> jsval \<times> request list" where
  "getDefaultWorkspace env documentId =
     try_catch (getDefaultWorkspace_try env documentId) (\<lambda>e. Undefined)"

text \<open>
  \<open>findPartStudioByName\<close> and \<open>findAssemblyByName\<close> differ in the element type they ask
  for.
\<close>

definition findByName_try :: "env \<Rightarrow> string \<Rightarrow> string \<Rightarrow> string \<Rightarrow> string \<Rightarrow> jsval io" where
  "findByName_try env elementType documentId workspaceId name =
     io_bind
       (onshapeApiRequest env ''GET''
          (''/documents/d/'' @ documentId @ ''/w/'' @ workspaceId @ ''/elements'')
          Undefined (Some [(''elementType'', elementType)]))
       (\<lambda>elements. io_pure
          (sum_bind (array_method elements ''elements'' ''find'')
             (\<lambda>xs. find_named xs name)))"

definition findPartStudioByName ::
  "env \<Rightarrow> string \<Rightarrow> string \<Rightarrow> string \<Rightarrow> request list \<Rightarrow> jsval \<times> request list" where
  "findPartStudioByName env documentId workspaceId name =
     try_catch (findByName_try env ''PARTSTUDIO'' documentId workspaceId name) (\<lambda>e. Undefined)"

definition findAssemblyByName ::
  "env \<Rightarrow> string \<Rightarrow> string \<Rightarrow> string \<Rightarrow> request list \<Rightarrow> jsval \<times> request list" where
  "findAssemblyByName env documentId workspaceId name =
     try_catch (findByName_try env ''ASSEMBLY'' documentId workspaceId name) (\<lambda>e. Undefined)"

section \<open>The server: results, URI templates, tools\<close>

text \<open>
  Every handler is an asynchronous function whose body is one \<open>try\<close> block with a
  \<open>catch\<close>. A handler is modelled by two functions: the \<open>try\<close> block, named after the
  handler with \<open>_try\<close> added, which returns a result or the error it throws, and the
  handler itself, which adds the \<open>catch\<close>. The arguments of a tool are the parameters
  that its schema declares: strings, optional strings, and JSON values where the schema
  lets any object through. What the handlers write to the console is left out: it is
  never read and the writing does not throw.

  What a tool handler returns: \<open>{ content: [{ type: "text", text }] }\<close>, with
  \<open>isError: true\<close> added on failure. \<open>isError\<close> is \<open>None\<close> where the object has no
  such property.
\<close>

record text_block =
  block_type :: string
  block_text :: string

record tool_result =
  content :: "text_block list"
  isError :: "bool option"

definition tool_text :: "string \<Rightarrow> tool_result" where
  "tool_text outputText =
     \<lparr>content = [\<lparr>block_type = ''text'', block_text = outputText\<rparr>], isError = None\<rparr>"

definition tool_error :: "string \<Rightarrow> tool_result" where
  "tool_error errorText =
     \<lparr>content = [\<lparr>block_type = ''text'', block_text = errorText\<rparr>], isError = Some True\<rparr>"

definition ONSHAPE_SCHEME :: string where
  "ONSHAPE_SCHEME = ''onshape''"

definition DOC_URI_TEMPLATE :: string where
  "DOC_URI_TEMPLATE = ONSHAPE_SCHEME @ ''://document/{documentId}''"

definition WVM_URI_TEMPLATE :: string where
  "WVM_URI_TEMPLATE = ONSHAPE_SCHEME @ ''://document/{documentId}/{wvm}/{wvmid}''"

definition ELEMENT_URI_TEMPLATE :: string where
  "ELEMENT_URI_TEMPLATE =
     ONSHAPE_SCHEME @ ''://document/{documentId}/{wvm}/{wvmid}/element/{elementId}''"


text \<open>
  The chains of \<open>replace\<close> calls that fill a template; the handlers hand the result to
  \<open>new URL\<close> and print its \<open>href\<close>.
\<close>

definition fill_doc_template :: "string \<Rightarrow> string" where
  "fill_doc_template documentId = js_replace DOC_URI_TEMPLATE ''{documentId}'' documentId"

definition fill_wvm_template :: "string \<Rightarrow> string \<Rightarrow> string \<Rightarrow> string" where
  "fill_wvm_template documentId wvm wvmid =
     js_replace (js_replace (js_replace WVM_URI_TEMPLATE
       ''{documentId}'' documentId) ''{wvm}'' wvm) ''{wvmid}'' wvmid"

definition fill_element_template :: "string \<Rightarrow> string \<Rightarrow> string \<Rightarrow> string \<Rightarrow> string" where
  "fill_element_template documentId wvm wvmid elementId =
     js_replace (js_replace (js_replace (js_replace ELEMENT_URI_TEMPLATE
       ''{documentId}'' documentId) ''{wvm}'' wvm) ''{wvmid}'' wvmid) ''{elementId}'' elementId"

text \<open>
  \<open>if (value) queryParams.append(key, value)\<close> for an optional string, and
  \<open>if (value !== undefined) queryParams.append(key, value.toString())\<close> for an optional
  boolean.
\<close>

definition append_truthy :: "string \<Rightarrow> string option \<Rightarrow> (string \<times> string) list \<Rightarrow> (string \<times> string) list" where
  "append_truthy k v q =
     (case v of
        Some s \<Rightarrow> if s \<noteq> [] then q @ [(k, s)] else q
      | None \<Rightarrow> q)"

definition append_defined :: "string \<Rightarrow> bool option \<Rightarrow> (string \<times> string) list \<Rightarrow> (string \<times> string) list" where
  "append_defined k v q =
     (case v of
        Some b \<Rightarrow> q @ [(k, if b then ''true'' else ''false'')]
      | None \<Rightarrow> q)"

subsection \<open>list_documents\<close>

text \<open>
  The callback of the loop: the URI of the document is built first, from \<open>doc.id\<close>,
  and then the line.
\<close>

definition list_documents_line :: "env \<Rightarrow> jsval \<Rightarrow> string \<Rightarrow> error + string" where
  \<open>list_documents_line env doc outputText =
     sum_bind (prop_text env doc ''id'') (\<lambda>doc_id.
     sum_bind (URL_href env (fill_doc_template doc_id)) (\<lambda>href.
     sum_bind
       (template
          [Inr ''- "'', prop_text env doc ''name'', Inr ''" (ID: '', prop_text env doc ''id'',
           Inr '') - @document('', Inr href, Inr '')\<newline>''])
       (\<lambda>line. Inr (outputText @ line))))\<close>

definition list_documents_try :: "env \<Rightarrow> tool_result io" where
  "list_documents_try env =
     io_bind (onshapeApiRequest env ''GET'' ''/documents?filter=0&limit=20'' Undefined None)
       (\<lambda>documents. io_pure
          (sum_bind (getprop documents ''items'') (\<lambda>items.
           sum_bind (nonempty env items) (\<lambda>found.
           sum_bind
             (if found then
                forEach items ''documents.items'' (list_documents_line env)
                  ''Recent Documents (owned by you):\<newline>''
              else Inr (''Recent Documents (owned by you):\<newline>'' @ ''No documents found.\<newline>''))
             (\<lambda>outputText. Inr (tool_text outputText))))))"

definition list_documents :: "env \<Rightarrow> request list \<Rightarrow> tool_result \<times> request list" where
  "list_documents env =
     try_catch (list_documents_try env)
       (\<lambda>e. tool_error (''Error listing documents: '' @ message e))"

subsection \<open>list_elements\<close>

text \<open>The values that the schema of \<open>list_elements\<close> admits for \<open>elementType\<close>.\<close>

definition elementType_enum :: "string list" where
  "elementType_enum =
     [''PARTSTUDIO'', ''ASSEMBLY'', ''DRAWING'', ''FEATURESTUDIO'', ''BLOB'', ''APPLICATION'',
      ''TABLE'', ''BILLOFMATERIALS'', ''VARIABLESTUDIO'', ''PUBLICATIONITEM'']"

text \<open>The query of \<open>list_elements\<close>: \<open>params.elementType || 'PARTSTUDIO,ASSEMBLY'\<close>.\<close>

definition list_elements_query :: "string option \<Rightarrow> (string \<times> string) list" where
  "list_elements_query elementType =
     [(''elementType'',
       case elementType of
         Some t \<Rightarrow> if t \<noteq> [] then t else ''PARTSTUDIO,ASSEMBLY''
       | None \<Rightarrow> ''PARTSTUDIO,ASSEMBLY'')]"

definition list_elements_line ::
  "env \<Rightarrow> string \<Rightarrow> string \<Rightarrow> string \<Rightarrow> jsval \<Rightarrow> string \<Rightarrow> error + string" where
  \<open>list_elements_line env documentId wvm wvmid elem outputText =
     sum_bind (prop_text env elem ''id'') (\<lambda>elem_id.
     sum_bind (URL_href env (fill_element_template documentId wvm wvmid elem_id)) (\<lambda>href.
     sum_bind
       (template
          [Inr ''- "'', prop_text env elem ''name'', Inr ''" (ID: '', prop_text env elem ''id'',
           Inr '', Type: '', prop_text env elem ''prettyType'',
           Inr '') - @element('', Inr href, Inr '')\<newline>''])
       (\<lambda>line. Inr (outputText @ line))))\<close>

definition list_elements_try ::
  "env \<Rightarrow> string \<Rightarrow> string \<Rightarrow> string \<Rightarrow> string option \<Rightarrow> tool_result io" where
  \<open>list_elements_try env documentId wvm wvmid elementType =
     io_bind
       (onshapeApiRequest env ''GET''
          (''/documents/d/'' @ documentId @ ''/'' @ wvm @ ''/'' @ wvmid @ ''/elements'')
          Undefined (Some (list_elements_query elementType)))
       (\<lambda>elements. io_pure
          (let outputText =
             ''Elements in document "'' @ documentId @ ''" ('' @ toUpperCase env wvm @ '': '' @
             wvmid @ '')'' @
             (case elementType of
                Some t \<Rightarrow> if t \<noteq> [] then '' (Type: '' @ t @ '')'' else []
              | None \<Rightarrow> []) @ '':\<newline>''
           in
             sum_bind (nonempty env elements) (\<lambda>found.
             sum_bind
               (if found then
                  forEach elements ''elements''
                    (list_elements_line env documentId wvm wvmid) outputText
                else Inr (outputText @
                       ''No elements found matching the criteria in this state.\<newline>''))
               (\<lambda>outputText. Inr (tool_text outputText)))))\<close>

definition list_elements ::
  "env \<Rightarrow> string \<Rightarrow> string \<Rightarrow> string \<Rightarrow> string option \<Rightarrow> request list \<Rightarrow>
     tool_result \<times> request list" where
  "list_elements env documentId wvm wvmid elementType =
     try_catch (list_elements_try env documentId wvm wvmid elementType)
       (\<lambda>e. tool_error (''Error listing elements: '' @ message e))"

subsection \<open>create_document, create_part_studio, create_assembly\<close>

text \<open>
  \<open>create_document\<close> builds the URI of the new document and a line of text from it,
  which can throw, and then returns the document itself, printed by \<open>JSON.stringify\<close>
  with an indentation of two.
\<close>

definition create_document_try :: "env \<Rightarrow> string \<Rightarrow> tool_result io" where
  \<open>create_document_try env name =
     io_bind (onshapeApiRequest env ''POST'' ''/documents'' (Obj [(''name'', Str name)]) None)
       (\<lambda>newDoc. io_pure
          (sum_bind (prop_text env newDoc ''id'') (\<lambda>newDoc_id.
           sum_bind (URL_href env (fill_doc_template newDoc_id)) (\<lambda>href.
           sum_bind
             (template
                [Inr ''Created document "'', prop_text env newDoc ''name'', Inr ''" (ID: '',
                 prop_text env newDoc ''id'', Inr '') - @document('', Inr href, Inr '')''])
             (\<lambda>outputText. Inr (tool_text (JSON_stringify_indent env newDoc)))))))\<close>

definition create_document :: "env \<Rightarrow> string \<Rightarrow> request list \<Rightarrow> tool_result \<times> request list" where
  "create_document env name =
     try_catch (create_document_try env name)
       (\<lambda>e. tool_error (''Error creating document: '' @ message e))"

text \<open>
  \<open>create_part_studio\<close> and \<open>create_assembly\<close> differ in the collection they post to
  and in the name of the kind of element in their texts.
\<close>

definition create_element_try ::
  "env \<Rightarrow> string \<Rightarrow> string \<Rightarrow> string \<Rightarrow> string \<Rightarrow> string \<Rightarrow> tool_result io" where
  \<open>create_element_try env collection kind documentId workspaceId name =
     io_bind
       (onshapeApiRequest env ''POST''
          (''/'' @ collection @ ''/d/'' @ documentId @ ''/w/'' @ workspaceId)
          (Obj [(''name'', Str name)]) None)
       (\<lambda>newElement. io_pure
          (sum_bind (prop_text env newElement ''id'') (\<lambda>newElement_id.
           sum_bind
             (URL_href env (fill_element_template documentId ''w'' workspaceId newElement_id))
             (\<lambda>href.
           sum_bind
             (template
                [Inr (''Created '' @ kind @ '' "''), prop_text env newElement ''name'',
                 Inr ''" (ID: '', prop_text env newElement ''id'',
                 Inr ('') in document '' @ documentId @ ''/'' @ workspaceId @ '' - @element('' @
                      href @ '')'')])
             (\<lambda>outputText. Inr (tool_text outputText))))))\<close>

definition create_part_studio ::
  "env \<Rightarrow> string \<Rightarrow> string \<Rightarrow> string \<Rightarrow> request list \<Rightarrow> tool_result \<times> request list" where
  "create_part_studio env documentId workspaceId name =
     try_catch (create_element_try env ''partstudios'' ''Part Studio'' documentId workspaceId name)
       (\<lambda>e. tool_error (''Error creating Part Studio: '' @ message e))"

definition create_assembly ::
  "env \<Rightarrow> string \<Rightarrow> string \<Rightarrow> string \<Rightarrow> request list \<Rightarrow> tool_result \<times> request list" where
  "create_assembly env documentId workspaceId name =
     try_catch (create_element_try env ''assemblies'' ''Assembly'' documentId workspaceId name)
       (\<lambda>e. tool_error (''Error creating Assembly: '' @ message e))"

subsection \<open>list_part_studio_feature_specs, get_part_studio_features\<close>

definition feature_spec_line :: "env \<Rightarrow> jsval \<Rightarrow> string \<Rightarrow> error + string" where
  \<open>feature_spec_line env spec outputText =
     sum_bind
       (template
          [Inr ''- "'', prop_text env spec ''featureTypeName'', Inr ''" (Type: '',
           prop_text env spec ''featureType'', Inr '', Namespace: '',
           prop_text env spec ''namespace'', Inr '')\<newline>''])
       (\<lambda>line. Inr (outputText @ line))\<close>

definition list_part_studio_feature_specs_try ::
  "env \<Rightarrow> string \<Rightarrow> string \<Rightarrow> string \<Rightarrow> string \<Rightarrow> tool_result io" where
  \<open>list_part_studio_feature_specs_try env documentId wvm wvmid elementId =
     io_bind
       (onshapeApiRequest env ''GET''
          (''/partstudios/d/'' @ documentId @ ''/'' @ wvm @ ''/'' @ wvmid @ ''/e/'' @ elementId @
           ''/featurespecs'')
          Undefined None)
       (\<lambda>featureSpecs. io_pure
          (let outputText = ''Available Feature Specs for Part Studio "'' @ elementId @ ''":\<newline>''
           in
             sum_bind (getprop featureSpecs ''featureSpecs'') (\<lambda>specs.
             sum_bind (nonempty env specs) (\<lambda>found.
             sum_bind
               (if found then
                  sum_bind
                    (forEach specs ''featureSpecs.featureSpecs'' (feature_spec_line env) outputText)
                    (\<lambda>outputText. Inr (outputText @
                       ''\<newline>To use a feature, call '' @ [CHR 0x27] @ ''add_part_studio_feature'' @
                       [CHR 0x27] @ '' or '' @ [CHR 0x27] @ ''update_part_studio_feature'' @
                       [CHR 0x27] @ '' with the correct JSON payload. Refer to Onshape'' @
                       [CHR 0x27] @ ''s FeatureScript and REST API documentation for required parameters.''))
                else Inr (outputText @ ''No feature specs found for this Part Studio.\<newline>''))
               (\<lambda>outputText. Inr (tool_text outputText))))))\<close>

definition list_part_studio_feature_specs ::
  "env \<Rightarrow> string \<Rightarrow> string \<Rightarrow> string \<Rightarrow> string \<Rightarrow> request list \<Rightarrow>
     tool_result \<times> request list" where
  "list_part_studio_feature_specs env documentId wvm wvmid elementId =
     try_catch (list_part_studio_feature_specs_try env documentId wvm wvmid elementId)
       (\<lambda>e. tool_error (''Error listing feature specs: '' @ message e))"

definition feature_line :: "env \<Rightarrow> jsval \<Rightarrow> string \<Rightarrow> error + string" where
  \<open>feature_line env feature outputText =
     sum_bind
       (template
          [Inr ''- "'', prop_text env feature ''name'', Inr ''" (ID: '',
           prop_text env feature ''featureId'', Inr '', Type: '',
           js_String env
             (js_or (getprop_opt feature ''featureType'') (getprop_opt feature ''btType'')),
           Inr '') - '',
           Inr (if truthy (getprop_opt feature ''suppressed'') then ''Suppressed'' else ''Active''),
           Inr ''\<newline>''])
       (\<lambda>line. Inr (outputText @ line))\<close>

definition get_part_studio_features_try ::
  "env \<Rightarrow> string \<Rightarrow> string \<Rightarrow> string \<Rightarrow> string \<Rightarrow> string option \<Rightarrow> string option \<Rightarrow>
     tool_result io" where
  \<open>get_part_studio_features_try env documentId wvm wvmid elementId configuration linkDocumentId =
     io_bind
       (onshapeApiRequest env ''GET''
          (''/partstudios/d/'' @ documentId @ ''/'' @ wvm @ ''/'' @ wvmid @ ''/e/'' @ elementId @
           ''/features'')
          Undefined
          (Some (append_truthy ''linkDocumentId'' linkDocumentId
                  (append_truthy ''configuration'' configuration []))))
       (\<lambda>features. io_pure
          (let outputText =
             ''Features in Part Studio "'' @ elementId @ ''" ('' @ toUpperCase env wvm @ '': '' @
             wvmid @ ''):\<newline>''
           in
             sum_bind (getprop features ''features'') (\<lambda>fs.
             sum_bind (nonempty env fs) (\<lambda>found.
             sum_bind
               (if found then
                  sum_bind (forEach fs ''features.features'' (feature_line env) outputText)
                    (\<lambda>outputText.
                  sum_bind
                    (template
                       [Inr ''\<newline>Source Microversion for edits: '',
                        prop_text env features ''sourceMicroversion'', Inr ''\<newline>''])
                    (\<lambda>line. Inr (outputText @ line)))
                else Inr (outputText @ ''No features found in this Part Studio.\<newline>''))
               (\<lambda>outputText. Inr (tool_text outputText))))))\<close>

definition get_part_studio_features ::
  "env \<Rightarrow> string \<Rightarrow> string \<Rightarrow> string \<Rightarrow> string \<Rightarrow> string option \<Rightarrow> string option \<Rightarrow>
     request list \<Rightarrow> tool_result \<times> request list" where
  "get_part_studio_features env documentId wvm wvmid elementId configuration linkDocumentId =
     try_catch
       (get_part_studio_features_try env documentId wvm wvmid elementId configuration linkDocumentId)
       (\<lambda>e. tool_error (''Error getting Part Studio features: '' @ message e))"

subsection \<open>add_part_studio_feature, update_part_studio_feature, delete_part_studio_feature\<close>

text \<open>The REST path of the feature list of a Part Studio in a workspace.\<close>

definition features_path :: "string \<Rightarrow> string \<Rightarrow> string \<Rightarrow> string" where
  "features_path documentId workspaceId elementId =
     ''/partstudios/d/'' @ documentId @ ''/w/'' @ workspaceId @ ''/e/'' @ elementId @ ''/features''"

text \<open>
  The test on the snapshot read before a write: the handler throws unless the snapshot
  and its \<open>serializationVersion\<close>, \<open>libraryVersion\<close> and \<open>sourceMicroversion\<close> are all
  truthy.
\<close>

definition has_stamps :: "jsval \<Rightarrow> bool" where
  "has_stamps currentFeatures =
     (truthy currentFeatures
      \<and> truthy (getprop_opt currentFeatures ''serializationVersion'')
      \<and> truthy (getprop_opt currentFeatures ''libraryVersion'')
      \<and> truthy (getprop_opt currentFeatures ''sourceMicroversion''))"

text \<open>The payload of the write.\<close>

definition featureDefinitionCall :: "jsval \<Rightarrow> jsval \<Rightarrow> jsval" where
  "featureDefinitionCall feature currentFeatures =
     Obj [(''feature'', feature),
          (''serializationVersion'', getprop_opt currentFeatures ''serializationVersion''),
          (''sourceMicroversion'', getprop_opt currentFeatures ''sourceMicroversion''),
          (''libraryVersion'', getprop_opt currentFeatures ''libraryVersion'')]"

definition notice_line :: "env \<Rightarrow> jsval \<Rightarrow> string \<Rightarrow> error + string" where
  "notice_line env notice outputText =
     sum_bind
       (template
          [Inr ''- ['', prop_text env notice ''level'', Inr ''] '',
           prop_text env notice ''message'', Inr ''\<newline>''])
       (\<lambda>line. Inr (outputText @ line))"

text \<open>
  The end of the texts of \<open>add\<close> and \<open>update\<close>, which differ in one word: the warning
  when the feature's state is an error, with the error message of the state when it has
  one, and otherwise the notices of the response. The response is known to be neither
  \<open>null\<close> nor \<open>undefined\<close> here, a property of it having been read before.
\<close>

definition feature_state_text :: "env \<Rightarrow> string \<Rightarrow> jsval \<Rightarrow> string \<Rightarrow> error + string" where
  "feature_state_text env verb response outputText =
     (let featureState = getprop_opt response ''featureState''
      in
        if truthy featureState \<and> getprop_opt featureState ''featureStatus'' = Str ''ERROR'' then
          sum_bind
            (if truthy (getprop_opt featureState ''errorMessage'') then
               template
                 [Inr ''Error Message: '', js_String env (getprop_opt featureState ''errorMessage''),
                  Inr ''\<newline>'']
             else Inr [])
            (\<lambda>detail. Inr (outputText @ ''Warning: The '' @ verb @
                            '' feature resulted in an error state.\<newline>'' @ detail))
        else
          sum_bind (nonempty env (getprop_opt response ''notices'')) (\<lambda>found.
            if found then
              forEach (getprop_opt response ''notices'') ''response.notices'' (notice_line env)
                (outputText @ ''FeatureScript Notices:\<newline>'')
            else Inr outputText))"

definition add_feature_text :: "env \<Rightarrow> jsval \<Rightarrow> jsval \<Rightarrow> error + string" where
  \<open>add_feature_text env fdc response =
     sum_bind (getprop response ''feature'') (\<lambda>feature.
     sum_bind
       (template
          [Inr (''Feature added successfully.\<newline> Input: \<newline>'' @ JSON_stringify env fdc @
                ''\<newline> Output: \<newline>'' @ JSON_stringify env response),
           if truthy feature \<and> truthy (getprop_opt feature ''name'') then
             template [Inr '' Name: "'', js_String env (getprop_opt feature ''name''), Inr ''"'']
           else Inr [],
           if truthy feature \<and> truthy (getprop_opt feature ''featureId'') then
             template
               [Inr '' (ID: '', js_String env (getprop_opt feature ''featureId''), Inr '')\<newline>'']
           else Inr ''\<newline>'',
           Inr ''New Microversion: '', prop_text env response ''sourceMicroversion'',
           Inr ''\<newline>''])
       (feature_state_text env ''added'' response))\<close>

text \<open>
  The \<open>try\<close> block of \<open>add_part_studio_feature\<close>. The variable \<open>featureDefinitionCall\<close>
  is declared before the block and read by the \<open>catch\<close>, so a throw carries the value the
  variable has at that point: \<open>undefined\<close> until the payload is built.
\<close>

definition add_part_studio_feature_try ::
  "env \<Rightarrow> string \<Rightarrow> string \<Rightarrow> string \<Rightarrow> jsval \<Rightarrow> request list \<Rightarrow>
     ((error \<times> jsval) + tool_result) \<times> request list" where
  "add_part_studio_feature_try env documentId workspaceId elementId feature sent =
     (case onshapeApiRequest env ''GET'' (features_path documentId workspaceId elementId)
             Undefined None sent of
        (Inl e, sent1) \<Rightarrow> (Inl (e, Undefined), sent1)
      | (Inr currentFeatures, sent1) \<Rightarrow>
          if \<not> has_stamps currentFeatures then
            (Inl (Error ''Failed to fetch necessary Part Studio metadata for adding feature.'',
                  Undefined), sent1)
          else
            (let fdc = featureDefinitionCall feature currentFeatures
             in
               case onshapeApiRequest env ''POST'' (features_path documentId workspaceId elementId)
                      fdc None sent1 of
                 (Inl e, sent2) \<Rightarrow> (Inl (e, fdc), sent2)
               | (Inr response, sent2) \<Rightarrow>
                   (case add_feature_text env fdc response of
                      Inl e \<Rightarrow> Inl (e, fdc)
                    | Inr outputText \<Rightarrow> Inr (tool_text outputText),
                    sent2)))"

definition add_part_studio_feature ::
  "env \<Rightarrow> string \<Rightarrow> string \<Rightarrow> string \<Rightarrow> jsval \<Rightarrow> request list \<Rightarrow>
     tool_result \<times> request list" where
  "add_part_studio_feature env documentId workspaceId elementId feature sent =
     (case add_part_studio_feature_try env documentId workspaceId elementId feature sent of
        (Inl (e, fdc), sent') \<Rightarrow>
          (tool_error (''Error adding feature: '' @ message e @ ''  + '' @
             (if fdc = Undefined then ''undefined'' else JSON_stringify_indent env fdc)),
           sent')
      | (Inr r, sent') \<Rightarrow> (r, sent'))"

definition update_feature_text :: "env \<Rightarrow> string \<Rightarrow> jsval \<Rightarrow> error + string" where
  \<open>update_feature_text env featureId response =
     sum_bind
       (template
          [Inr (''Feature "'' @ featureId @ ''" updated successfully.\<newline>''),
           Inr ''New Microversion: '', prop_text env response ''sourceMicroversion'',
           Inr ''\<newline>''])
       (feature_state_text env ''updated'' response)\<close>

definition update_part_studio_feature_try ::
  "env \<Rightarrow> string \<Rightarrow> string \<Rightarrow> string \<Rightarrow> string \<Rightarrow> jsval \<Rightarrow> tool_result io" where
  "update_part_studio_feature_try env documentId workspaceId elementId featureId feature =
     io_bind
       (onshapeApiRequest env ''GET'' (features_path documentId workspaceId elementId)
          Undefined None)
       (\<lambda>currentFeatures.
          if \<not> has_stamps currentFeatures then
            io_pure (Inl (Error
              ''Failed to fetch necessary Part Studio metadata for updating feature.''))
          else
            io_bind (io_pure (encodeURIComponent env featureId)) (\<lambda>encoded.
            io_bind
              (onshapeApiRequest env ''POST''
                 (features_path documentId workspaceId elementId @ ''/featureid/'' @ encoded)
                 (featureDefinitionCall feature currentFeatures) None)
              (\<lambda>response. io_pure
                 (sum_bind (update_feature_text env featureId response)
                    (\<lambda>outputText. Inr (tool_text outputText))))))"

definition update_part_studio_feature ::
  "env \<Rightarrow> string \<Rightarrow> string \<Rightarrow> string \<Rightarrow> string \<Rightarrow> jsval \<Rightarrow> request list \<Rightarrow>
     tool_result \<times> request list" where
  "update_part_studio_feature env documentId workspaceId elementId featureId feature =
     try_catch
       (update_part_studio_feature_try env documentId workspaceId elementId featureId feature)
       (\<lambda>e. tool_error (''Error updating feature '' @ featureId @ '': '' @ message e))"

definition delete_feature_text :: "env \<Rightarrow> string \<Rightarrow> jsval \<Rightarrow> error + string" where
  \<open>delete_feature_text env featureId response =
     sum_bind (getprop response ''microversionSkew'') (\<lambda>microversionSkew.
       (let outputText =
          ''Feature "'' @ featureId @ ''" deleted successfully.\<newline>'' @
          (if truthy microversionSkew then
             ''Warning: Microversion skew detected during deletion.\<newline>''
           else [])
        in
          sum_bind (nonempty env (getprop_opt response ''notices'')) (\<lambda>found.
            if found then
              forEach (getprop_opt response ''notices'') ''response.notices'' (notice_line env)
                (outputText @ ''Notices during deletion:\<newline>'')
            else Inr outputText)))\<close>

definition delete_part_studio_feature_try ::
  "env \<Rightarrow> string \<Rightarrow> string \<Rightarrow> string \<Rightarrow> string \<Rightarrow> tool_result io" where
  "delete_part_studio_feature_try env documentId workspaceId elementId featureId =
     io_bind (io_pure (encodeURIComponent env featureId)) (\<lambda>encoded.
     io_bind
       (onshapeApiRequest env ''DELETE''
          (features_path documentId workspaceId elementId @ ''/featureid/'' @ encoded)
          Undefined None)
       (\<lambda>response. io_pure
          (sum_bind (delete_feature_text env featureId response)
             (\<lambda>outputText. Inr (tool_text outputText)))))"

definition delete_part_studio_feature ::
  "env \<Rightarrow> string \<Rightarrow> string \<Rightarrow> string \<Rightarrow> string \<Rightarrow> request list \<Rightarrow>
     tool_result \<times> request list" where
  "delete_part_studio_feature env documentId workspaceId elementId featureId =
     try_catch (delete_part_studio_feature_try env documentId workspaceId elementId featureId)
       (\<lambda>e. tool_error (''Error deleting feature '' @ featureId @ '': '' @ message e))"

subsection \<open>get_assembly_definition\<close>

text \<open>
  The examples of a list in \<open>get_assembly_definition\<close>:
  \<open>xs.slice(0, 5).forEach(line)\<close> followed by
  \<open>if (xs.length > 5) outputText += `    (...${xs.length - 5} more ...)\n`\<close>. Arrays and
  strings have \<open>slice\<close>, and the slice of a string has no \<open>forEach\<close>; so the statement
  after the loop is reached with an array only.
\<close>

fun examples ::
  "env \<Rightarrow> jsval \<Rightarrow> string \<Rightarrow> (jsval \<Rightarrow> string \<Rightarrow> error + string) \<Rightarrow> string \<Rightarrow> string \<Rightarrow>
     error + string" where
  "examples env (Arr xs) expr line what outputText =
     sum_bind (iterate line (take 5 xs) outputText) (\<lambda>outputText.
       Inr (if 5 < length xs then
              outputText @ ''    (...'' @ Number_toString env (of_nat (length xs) - 5) @
              '' more '' @ what @ '')\<newline>''
            else outputText))"
| "examples env (Str s) expr line what outputText =
     Inl (TypeError (expr @ ''.slice(...).forEach is not a function''))"
| "examples env Undefined expr line what outputText =
     Inl (TypeError (''Cannot read properties of undefined (reading '' @ [CHR 0x27] @ ''slice'' @
                     [CHR 0x27] @ '')''))"
| "examples env Null expr line what outputText =
     Inl (TypeError (''Cannot read properties of null (reading '' @ [CHR 0x27] @ ''slice'' @
                     [CHR 0x27] @ '')''))"
| "examples env v expr line what outputText =
     Inl (TypeError (expr @ ''.slice is not a function''))"

definition instance_line :: "env \<Rightarrow> jsval \<Rightarrow> string \<Rightarrow> error + string" where
  \<open>instance_line env inst outputText =
     sum_bind
       (template
          [Inr ''    - "'', prop_text env inst ''name'', Inr ''" (ID: '', prop_text env inst ''id'',
           Inr '', Type: '', prop_text env inst ''type'', Inr '', Part ID: '',
           js_String env (js_or (getprop_opt inst ''partId'') (Str ''N/A'')), Inr '')\<newline>''])
       (\<lambda>line. Inr (outputText @ line))\<close>

definition part_line :: "env \<Rightarrow> jsval \<Rightarrow> string \<Rightarrow> error + string" where
  "part_line env part outputText =
     sum_bind
       (template
          [Inr ''    - Type: '', prop_text env part ''bodyType'', Inr '', Doc ID: '',
           prop_text env part ''documentId'', Inr '', Elem ID: '',
           prop_text env part ''elementId'', Inr '', Part ID: '',
           prop_text env part ''partId'', Inr ''\<newline>''])
       (\<lambda>line. Inr (outputText @ line))"

definition root_assembly_text :: "env \<Rightarrow> jsval \<Rightarrow> string \<Rightarrow> error + string" where
  "root_assembly_text env rootAssembly outputText =
     (if truthy rootAssembly then
        (let instances = getprop_opt rootAssembly ''instances''
         in
           sum_bind
             (template
                [Inr ''Root Assembly:\<newline>'',
                 Inr ''  Instances: '',
                 js_String env (js_or (getprop_opt instances ''length'') (Num 0)), Inr ''\<newline>'',
                 Inr ''  Features: '',
                 js_String env
                   (js_or (getprop_opt (getprop_opt rootAssembly ''features'') ''length'') (Num 0)),
                 Inr ''\<newline>''])
             (\<lambda>lines.
           sum_bind (nonempty env instances) (\<lambda>found.
             if found then
               examples env instances ''assemblyDefinition.rootAssembly.instances''
                 (instance_line env) ''instances''
                 (outputText @ lines @ ''  Example Instances:\<newline>'')
             else Inr (outputText @ lines))))
      else Inr outputText)"

definition sub_assemblies_text :: "env \<Rightarrow> jsval \<Rightarrow> string \<Rightarrow> error + string" where
  "sub_assemblies_text env subAssemblies outputText =
     sum_bind (nonempty env subAssemblies) (\<lambda>found.
       if found then
         sum_bind
           (template
              [Inr ''Sub-Assemblies: '', js_String env (getprop_opt subAssemblies ''length''),
               Inr ''\<newline>''])
           (\<lambda>line. Inr (outputText @ line))
       else Inr outputText)"

text \<open>The source tests \<open>parts.length > 0\<close> a second time inside the guard.\<close>

definition parts_text :: "env \<Rightarrow> jsval \<Rightarrow> string \<Rightarrow> error + string" where
  "parts_text env parts outputText =
     sum_bind (nonempty env parts) (\<lambda>found.
       if found then
         sum_bind
           (template
              [Inr ''Parts (Instances): '', js_String env (getprop_opt parts ''length''),
               Inr ''\<newline>''])
           (\<lambda>line.
         sum_bind (js_gt env (getprop_opt parts ''length'') 0) (\<lambda>again.
           if again then
             examples env parts ''assemblyDefinition.parts'' (part_line env) ''parts''
               (outputText @ line @ ''  Example Parts:\<newline>'')
           else Inr (outputText @ line)))
       else Inr outputText)"

definition get_assembly_definition_try ::
  "env \<Rightarrow> string \<Rightarrow> string \<Rightarrow> string \<Rightarrow> string \<Rightarrow> string option \<Rightarrow> string option \<Rightarrow>
     bool option \<Rightarrow> bool option \<Rightarrow> bool option \<Rightarrow> bool option \<Rightarrow> tool_result io" where
  \<open>get_assembly_definition_try env documentId wvm wvmid elementId configuration explodedViewId
       includeMateFeatures includeNonSolids includeMateConnectors excludeSuppressed =
     io_bind
       (onshapeApiRequest env ''GET''
          (''/assemblies/d/'' @ documentId @ ''/'' @ wvm @ ''/'' @ wvmid @ ''/e/'' @ elementId)
          Undefined
          (Some (append_defined ''excludeSuppressed'' excludeSuppressed
                  (append_defined ''includeMateConnectors'' includeMateConnectors
                    (append_defined ''includeNonSolids'' includeNonSolids
                      (append_defined ''includeMateFeatures'' includeMateFeatures
                        (append_truthy ''explodedViewId'' explodedViewId
                          (append_truthy ''configuration'' configuration []))))))))
       (\<lambda>assemblyDefinition. io_pure
          (sum_bind (getprop assemblyDefinition ''rootAssembly'') (\<lambda>rootAssembly.
           sum_bind
             (root_assembly_text env rootAssembly
                (''Assembly Definition for "'' @ elementId @ ''" ('' @ toUpperCase env wvm @
                 '': '' @ wvmid @ ''):\<newline>''))
             (\<lambda>outputText.
           sum_bind
             (sub_assemblies_text env (getprop_opt assemblyDefinition ''subAssemblies'') outputText)
             (\<lambda>outputText.
           sum_bind (parts_text env (getprop_opt assemblyDefinition ''parts'') outputText)
             (\<lambda>outputText. Inr (tool_text outputText)))))))\<close>

definition get_assembly_definition ::
  "env \<Rightarrow> string \<Rightarrow> string \<Rightarrow> string \<Rightarrow> string \<Rightarrow> string option \<Rightarrow> string option \<Rightarrow>
     bool option \<Rightarrow> bool option \<Rightarrow> bool option \<Rightarrow> bool option \<Rightarrow> request list \<Rightarrow>
     tool_result \<times> request list" where
  "get_assembly_definition env documentId wvm wvmid elementId configuration explodedViewId
       includeMateFeatures includeNonSolids includeMateConnectors excludeSuppressed =
     try_catch
       (get_assembly_definition_try env documentId wvm wvmid elementId configuration
          explodedViewId includeMateFeatures includeNonSolids includeMateConnectors
          excludeSuppressed)
       (\<lambda>e. tool_error (''Error getting assembly definition: '' @ message e))"

subsection \<open>add_assembly_instance, transform_assembly_instances\<close>

text \<open>\<open>if (value) requestBody[key] = value\<close> for an optional string.\<close>

definition set_truthy :: "string \<Rightarrow> string option \<Rightarrow> (string \<times> jsval) list \<Rightarrow> (string \<times> jsval) list" where
  "set_truthy k v props =
     (case v of
        Some s \<Rightarrow> if s \<noteq> [] then props @ [(k, Str s)] else props
      | None \<Rightarrow> props)"

definition add_assembly_instance_body ::
  "string \<Rightarrow> string \<Rightarrow> string option \<Rightarrow> string option \<Rightarrow> string option \<Rightarrow> string option \<Rightarrow>
     rat list option \<Rightarrow> jsval" where
  "add_assembly_instance_body sourceDocumentId sourceElementId sourceVersionId
       sourceMicroversionId sourcePartId sourceConfiguration transform =
     Obj ((set_truthy ''configuration'' sourceConfiguration
            (set_truthy ''partId'' sourcePartId
              (set_truthy ''microversionId'' sourceMicroversionId
                (set_truthy ''versionId'' sourceVersionId
                  [(''documentId'', Str sourceDocumentId),
                   (''elementId'', Str sourceElementId)])))) @
          (case transform of
             Some xs \<Rightarrow> [(''transform'', Arr (map Num xs))]
           | None \<Rightarrow> []))"

definition add_assembly_instance_try ::
  "env \<Rightarrow> string \<Rightarrow> string \<Rightarrow> string \<Rightarrow> string \<Rightarrow> string \<Rightarrow> string option \<Rightarrow> string option \<Rightarrow>
     string option \<Rightarrow> string option \<Rightarrow> rat list option \<Rightarrow> tool_result io" where
  \<open>add_assembly_instance_try env documentId workspaceId assemblyElementId sourceDocumentId
       sourceElementId sourceVersionId sourceMicroversionId sourcePartId sourceConfiguration
       transform =
     io_bind
       (onshapeApiRequest env ''POST''
          (''/assemblies/d/'' @ documentId @ ''/w/'' @ workspaceId @ ''/e/'' @ assemblyElementId @
           ''/instances'')
          (add_assembly_instance_body sourceDocumentId sourceElementId sourceVersionId
             sourceMicroversionId sourcePartId sourceConfiguration transform)
          None)
       (\<lambda>response. io_pure
          (sum_bind (getprop response ''name'') (\<lambda>name.
           sum_bind
             (template
                [Inr ''Assembly instance added successfully.\<newline>'',
                 if truthy name then
                   template [Inr ''Instance name: "'', js_String env name, Inr ''"\<newline>'']
                 else Inr [],
                 if truthy (getprop_opt response ''id'') then
                   template
                     [Inr ''Instance ID: '', js_String env (getprop_opt response ''id''),
                      Inr ''\<newline>'']
                 else Inr []])
             (\<lambda>outputText. Inr (tool_text outputText)))))\<close>

definition add_assembly_instance ::
  "env \<Rightarrow> string \<Rightarrow> string \<Rightarrow> string \<Rightarrow> string \<Rightarrow> string \<Rightarrow> string option \<Rightarrow> string option \<Rightarrow>
     string option \<Rightarrow> string option \<Rightarrow> rat list option \<Rightarrow> request list \<Rightarrow>
     tool_result \<times> request list" where
  "add_assembly_instance env documentId workspaceId assemblyElementId sourceDocumentId
       sourceElementId sourceVersionId sourceMicroversionId sourcePartId sourceConfiguration
       transform =
     try_catch
       (add_assembly_instance_try env documentId workspaceId assemblyElementId sourceDocumentId
          sourceElementId sourceVersionId sourceMicroversionId sourcePartId sourceConfiguration
          transform)
       (\<lambda>e. tool_error (''Error adding assembly instance: '' @ message e))"

definition transform_assembly_instances_try ::
  "env \<Rightarrow> string \<Rightarrow> string \<Rightarrow> string \<Rightarrow> jsval list \<Rightarrow> rat list \<Rightarrow> bool option \<Rightarrow>
     tool_result io" where
  "transform_assembly_instances_try env documentId workspaceId assemblyElementId occurrences
       transform isRelative =
     io_bind
       (onshapeApiRequest env ''POST''
          (''/assemblies/d/'' @ documentId @ ''/w/'' @ workspaceId @ ''/e/'' @ assemblyElementId @
           ''/transformoccurrences'')
          (Obj ([(''occurrences'', Arr occurrences), (''transform'', Arr (map Num transform))] @
                (case isRelative of
                   Some b \<Rightarrow> [(''isRelative'', Bool b)]
                 | None \<Rightarrow> [])))
          None)
       (\<lambda>response. io_pure
          (Inr (tool_text ''Assembly instances transformed successfully.\<newline>'')))"

definition transform_assembly_instances ::
  "env \<Rightarrow> string \<Rightarrow> string \<Rightarrow> string \<Rightarrow> jsval list \<Rightarrow> rat list \<Rightarrow> bool option \<Rightarrow>
     request list \<Rightarrow> tool_result \<times> request list" where
  "transform_assembly_instances env documentId workspaceId assemblyElementId occurrences
       transform isRelative =
     try_catch
       (transform_assembly_instances_try env documentId workspaceId assemblyElementId occurrences
          transform isRelative)
       (\<lambda>e. tool_error (''Error transforming assembly instances: '' @ message e))"

subsection \<open>get_part_bounding_box, get_element_bounding_box\<close>

definition bounding_box_text :: "env \<Rightarrow> jsval \<Rightarrow> string \<Rightarrow> error + string" where
  "bounding_box_text env bboxResponse outputText =
     (if truthy bboxResponse \<and> getprop_opt bboxResponse ''lowX'' \<noteq> Undefined then
        sum_bind
          (template
             [Inr ''  Low Corner: ['', js_String env (getprop_opt bboxResponse ''lowX''),
              Inr '', '', js_String env (getprop_opt bboxResponse ''lowY''),
              Inr '', '', js_String env (getprop_opt bboxResponse ''lowZ''), Inr '']\<newline>'',
              Inr ''  High Corner: ['', js_String env (getprop_opt bboxResponse ''highX''),
              Inr '', '', js_String env (getprop_opt bboxResponse ''highY''),
              Inr '', '', js_String env (getprop_opt bboxResponse ''highZ''), Inr '']\<newline>'',
              Inr ''(Coordinates in meters)''])
          (\<lambda>lines. Inr (outputText @ lines))
      else Inr (outputText @ ''Could not retrieve bounding box.\<newline>''))"

definition get_part_bounding_box_try ::
  "env \<Rightarrow> string \<Rightarrow> string \<Rightarrow> string \<Rightarrow> string \<Rightarrow> string \<Rightarrow> string option \<Rightarrow> string option \<Rightarrow>
     tool_result io" where
  "get_part_bounding_box_try env documentId wvm wvmid elementId partId configuration
       linkDocumentId =
     io_bind
       (onshapeApiRequest env ''GET''
          (''/parts/d/'' @ documentId @ ''/'' @ wvm @ ''/'' @ wvmid @ ''/e/'' @ elementId @
           ''/partid/'' @ partId @ ''/boundingboxes'')
          Undefined
          (Some (append_truthy ''linkDocumentId'' linkDocumentId
                  (append_truthy ''configuration'' configuration []))))
       (\<lambda>bboxResponse. io_pure
          (sum_bind
             (bounding_box_text env bboxResponse
                (''Bounding Box for Part '' @ partId @ '':\<newline>''))
             (\<lambda>outputText. Inr (tool_text outputText))))"

definition get_part_bounding_box ::
  "env \<Rightarrow> string \<Rightarrow> string \<Rightarrow> string \<Rightarrow> string \<Rightarrow> string \<Rightarrow> string option \<Rightarrow> string option \<Rightarrow>
     request list \<Rightarrow> tool_result \<times> request list" where
  "get_part_bounding_box env documentId wvm wvmid elementId partId configuration linkDocumentId =
     try_catch
       (get_part_bounding_box_try env documentId wvm wvmid elementId partId configuration
          linkDocumentId)
       (\<lambda>e. tool_error
          (''Error getting part bounding box '' @ partId @ '': '' @ message e))"

text \<open>
  \<open>get_element_bounding_box\<close> first asks for the element, to choose the endpoint by its
  type. For an element that is neither a Part Studio nor an Assembly it returns an error
  result from inside the \<open>try\<close> block, without a second request.
\<close>

definition get_element_bounding_box_try ::
  "env \<Rightarrow> string \<Rightarrow> string \<Rightarrow> string \<Rightarrow> string \<Rightarrow> string option \<Rightarrow> string option \<Rightarrow>
     tool_result io" where
  \<open>get_element_bounding_box_try env documentId wvm wvmid elementId configuration linkDocumentId =
     io_bind
       (onshapeApiRequest env ''GET''
          (''/documents/d/'' @ documentId @ ''/'' @ wvm @ ''/'' @ wvmid @ ''/elements/'' @ elementId)
          Undefined None)
       (\<lambda>elementInfo.
     io_bind (io_pure (getprop elementInfo ''elementType'')) (\<lambda>elementType.
       if elementType \<noteq> Str ''PARTSTUDIO'' \<and> elementType \<noteq> Str ''ASSEMBLY'' then
         io_pure
           (sum_bind
              (template
                 [Inr ''Error: Bounding box is only supported for Part Studio or Assembly elements (Type: '',
                  prop_text env elementInfo ''prettyType'', Inr '').''])
              (\<lambda>errorText. Inr (tool_error errorText)))
       else
         io_bind
           (onshapeApiRequest env ''GET''
              (''/'' @ (if elementType = Str ''PARTSTUDIO'' then ''partstudios'' else ''assemblies'') @
               ''/d/'' @ documentId @ ''/'' @ wvm @ ''/'' @ wvmid @ ''/e/'' @ elementId @
               ''/boundingboxes'')
              Undefined
              (Some (append_truthy ''linkDocumentId'' linkDocumentId
                      (append_truthy ''configuration'' configuration []))))
           (\<lambda>bboxResponse. io_pure
              (sum_bind
                 (template
                    [Inr ''Bounding Box for Element "'', prop_text env elementInfo ''name'',
                     Inr (''" (ID: '' @ elementId @ ''):\<newline>'')])
                 (\<lambda>outputText.
               sum_bind (bounding_box_text env bboxResponse outputText)
                 (\<lambda>outputText. Inr (tool_text outputText)))))))\<close>

definition get_element_bounding_box ::
  "env \<Rightarrow> string \<Rightarrow> string \<Rightarrow> string \<Rightarrow> string \<Rightarrow> string option \<Rightarrow> string option \<Rightarrow>
     request list \<Rightarrow> tool_result \<times> request list" where
  "get_element_bounding_box env documentId wvm wvmid elementId configuration linkDocumentId =
     try_catch
       (get_element_bounding_box_try env documentId wvm wvmid elementId configuration
          linkDocumentId)
       (\<lambda>e. tool_error
          (''Error getting element bounding box '' @ elementId @ '': '' @ message e))"

subsection \<open>get_element_configuration_definition\<close>

definition configuration_parameter_lines :: "env \<Rightarrow> jsval \<Rightarrow> string \<Rightarrow> error + string" where
  \<open>configuration_parameter_lines env param outputText =
     sum_bind
       (template
          [Inr ''- "'', prop_text env param ''parameterName'', Inr ''" (ID: '',
           prop_text env param ''parameterId'', Inr '', Type: '',
           prop_text env param ''parameterType'', Inr '')\<newline>'',
           if truthy (getprop_opt param ''description'') then
             template
               [Inr ''  Description: '', js_String env (getprop_opt param ''description''),
                Inr ''\<newline>'']
           else Inr []])
       (\<lambda>lines.
     sum_bind (nonempty env (getprop_opt param ''options'')) (\<lambda>found.
       if found then
         sum_bind (array_method (getprop_opt param ''options'') ''param.options'' ''join'')
           (\<lambda>options.
         sum_bind (join_elems env '', '' options) (\<lambda>joined.
           Inr (outputText @ lines @ ''  Options: '' @ joined @ ''\<newline>'')))
       else Inr (outputText @ lines)))\<close>

definition get_element_configuration_definition_try ::
  "env \<Rightarrow> string \<Rightarrow> string \<Rightarrow> string \<Rightarrow> string \<Rightarrow> string option \<Rightarrow> tool_result io" where
  \<open>get_element_configuration_definition_try env documentId wvm wvmid elementId linkDocumentId =
     io_bind
       (onshapeApiRequest env ''GET''
          (''/elements/d/'' @ documentId @ ''/'' @ wvm @ ''/'' @ wvmid @ ''/e/'' @ elementId @
           ''/configuration'')
          Undefined (Some (append_truthy ''linkDocumentId'' linkDocumentId [])))
       (\<lambda>configDefinition. io_pure
          (let outputText = ''Configuration Definition for Element "'' @ elementId @ ''":\<newline>''
           in
             sum_bind (getprop configDefinition ''configurationParameters'') (\<lambda>params.
             sum_bind (nonempty env params) (\<lambda>found.
             sum_bind
               (if found then
                  sum_bind
                    (forEach params ''configDefinition.configurationParameters''
                       (configuration_parameter_lines env) (outputText @ ''Parameters:\<newline>''))
                    (\<lambda>outputText.
                  sum_bind
                    (template
                       [Inr ''\<newline>Source Microversion: '',
                        prop_text env configDefinition ''sourceMicroversion'', Inr ''\<newline>''])
                    (\<lambda>line. Inr (outputText @ line)))
                else Inr (outputText @ ''This element has no configuration parameters.\<newline>''))
               (\<lambda>outputText. Inr (tool_text outputText))))))\<close>

definition get_element_configuration_definition ::
  "env \<Rightarrow> string \<Rightarrow> string \<Rightarrow> string \<Rightarrow> string \<Rightarrow> string option \<Rightarrow> request list \<Rightarrow>
     tool_result \<times> request list" where
  "get_element_configuration_definition env documentId wvm wvmid elementId linkDocumentId =
     try_catch
       (get_element_configuration_definition_try env documentId wvm wvmid elementId linkDocumentId)
       (\<lambda>e. tool_error (''Error getting element configuration definition: '' @ message e))"

subsection \<open>list_part_studio_sketches\<close>

text \<open>
  \<open>Object.entries(v)\<close> throws on \<open>null\<close> and \<open>undefined\<close>. An object literal with a
  spread, \<open>{ featureId, ...data }\<close>, copies the own properties of \<open>data\<close> over the
  properties written before the spread: a property that is there already gets the new
  value, and a new one is added.
\<close>

definition Object_entries :: "jsval \<Rightarrow> error + (string \<times> jsval) list" where
  "Object_entries v =
     (if v = Undefined \<or> v = Null then
        Inl (TypeError ''Cannot convert undefined or null to object'')
      else Inr (own_entries v))"

fun set_prop :: "(string \<times> jsval) list \<Rightarrow> string \<times> jsval \<Rightarrow> (string \<times> jsval) list" where
  "set_prop [] (k, v) = [(k, v)]"
| "set_prop ((k', v') # props) (k, v) =
     (if k' = k then (k, v) # props else (k', v') # set_prop props (k, v))"

definition sketch_feature :: "string \<times> jsval \<Rightarrow> jsval" where
  "sketch_feature entry =
     Obj (foldl set_prop [(''featureId'', Str (fst entry))] (own_entries (snd entry)))"

text \<open>
  The line of a sketch. A sketch that passed the filter has truthy \<open>entities\<close>, so the
  read of their \<open>length\<close> does not throw.
\<close>

definition sketch_line :: "env \<Rightarrow> jsval \<Rightarrow> string \<Rightarrow> error + string" where
  "sketch_line env sketch outputText =
     sum_bind
       (template
          [Inr ''- Feature ID: '', prop_text env sketch ''featureId'', Inr '', Entities: '',
           js_String env (getprop_opt (getprop_opt sketch ''entities'') ''length''),
           Inr ''\<newline>''])
       (\<lambda>line. Inr (outputText @ line))"

definition list_part_studio_sketches_try ::
  "env \<Rightarrow> string \<Rightarrow> string \<Rightarrow> string \<Rightarrow> string \<Rightarrow> string option \<Rightarrow> string option \<Rightarrow>
     tool_result io" where
  \<open>list_part_studio_sketches_try env documentId wvm wvmid elementId configuration linkDocumentId =
     io_bind
       (onshapeApiRequest env ''GET''
          (''/partstudios/d/'' @ documentId @ ''/'' @ wvm @ ''/'' @ wvmid @ ''/e/'' @ elementId @
           ''/sketches'')
          Undefined
          (Some (append_truthy ''linkDocumentId'' linkDocumentId
                  (append_truthy ''configuration'' configuration []))))
       (\<lambda>sketchInfo. io_pure
          (let outputText =
             ''Sketches in Part Studio "'' @ elementId @ ''" ('' @ toUpperCase env wvm @ '': '' @
             wvmid @ ''):\<newline>''
           in
             sum_bind (Object_entries sketchInfo) (\<lambda>entries.
             sum_bind
               (js_filter (\<lambda>s. nonempty env (getprop_opt s ''entities''))
                  (map sketch_feature entries))
               (\<lambda>sketchFeatures.
             sum_bind
               (if sketchFeatures \<noteq> [] then iterate (sketch_line env) sketchFeatures outputText
                else Inr (outputText @ ''No sketches found in this Part Studio.\<newline>''))
               (\<lambda>outputText. Inr (tool_text outputText))))))\<close>

definition list_part_studio_sketches ::
  "env \<Rightarrow> string \<Rightarrow> string \<Rightarrow> string \<Rightarrow> string \<Rightarrow> string option \<Rightarrow> string option \<Rightarrow>
     request list \<Rightarrow> tool_result \<times> request list" where
  "list_part_studio_sketches env documentId wvm wvmid elementId configuration linkDocumentId =
     try_catch
       (list_part_studio_sketches_try env documentId wvm wvmid elementId configuration
          linkDocumentId)
       (\<lambda>e. tool_error (''Error listing Part Studio sketches: '' @ message e))"

subsection \<open>get_sketch_tessellation\<close>

text \<open>
  \<open>if (value !== undefined) queryParams.append(key, value.toString())\<close> for an optional
  number.
\<close>

definition append_number ::
  "env \<Rightarrow> string \<Rightarrow> rat option \<Rightarrow> (string \<times> string) list \<Rightarrow> (string \<times> string) list" where
  "append_number env k v q =
     (case v of
        Some x \<Rightarrow> q @ [(k, Number_toString env x)]
      | None \<Rightarrow> q)"

fun is_array :: "jsval \<Rightarrow> bool" where
  "is_array (Arr xs) = True"
| "is_array v = False"

text \<open>
  The description of the first entity of the tessellation data: its key is the first of
  \<open>Object.keys\<close>, and the entity is described when that key is truthy.
\<close>

definition first_entity_text :: "env \<Rightarrow> jsval \<Rightarrow> error + string" where
  "first_entity_text env tessellationData =
     (case own_entries tessellationData of
        [] \<Rightarrow> Inr []
      | (firstEntityId, entityData) # rest \<Rightarrow>
          if firstEntityId = [] then Inr []
          else if truthy entityData \<and> truthy (getprop_opt entityData ''lines'')
                  \<and> is_array (getprop_opt entityData ''lines'') then
            template
              [Inr (''  Example Entity ('' @ firstEntityId @ ''): has ''),
               js_String env (getprop_opt (getprop_opt entityData ''lines'') ''length''),
               Inr '' line segments.\<newline>'']
          else if truthy entityData \<and> truthy (getprop_opt entityData ''points'')
                  \<and> is_array (getprop_opt entityData ''points'') then
            template
              [Inr (''  Example Entity ('' @ firstEntityId @ ''): has ''),
               (case getprop_opt entityData ''points'' of
                  Arr points \<Rightarrow> Inr (Number_toString env (of_nat (length points) / 2))
                | v \<Rightarrow> Inr []),
               Inr '' points.\<newline>'']
          else Inr (''  Example Entity ('' @ firstEntityId @ ''): structure unknown.\<newline>''))"

definition tessellation_text :: "env \<Rightarrow> jsval \<Rightarrow> string \<Rightarrow> error + string" where
  "tessellation_text env tessellationData outputText =
     (if truthy tessellationData \<and> typeof_object tessellationData then
        sum_bind
          (template
             [Inr ''  Contains data for '',
              Inr (Number_toString env (of_nat (length (own_entries tessellationData)))),
              Inr '' entities.\<newline>'', first_entity_text env tessellationData])
          (\<lambda>lines. Inr (outputText @ lines))
      else Inr (outputText @ ''Could not retrieve tessellation data.\<newline>''))"

definition get_sketch_tessellation_try ::
  "env \<Rightarrow> string \<Rightarrow> string \<Rightarrow> string \<Rightarrow> string \<Rightarrow> string \<Rightarrow> string option \<Rightarrow> string option \<Rightarrow>
     string option \<Rightarrow> rat option \<Rightarrow> rat option \<Rightarrow> tool_result io" where
  "get_sketch_tessellation_try env documentId wvm wvmid partStudioElementId sketchFeatureId
       entityId configuration linkDocumentId angleTolerance chordTolerance =
     io_bind
       (onshapeApiRequest env ''GET''
          (''/partstudios/d/'' @ documentId @ ''/'' @ wvm @ ''/'' @ wvmid @ ''/e/'' @
           partStudioElementId @ ''/sketches/'' @ sketchFeatureId @ ''/tessellatedentities'')
          Undefined
          (Some (append_number env ''chordTolerance'' chordTolerance
                  (append_number env ''angleTolerance'' angleTolerance
                    (append_truthy ''linkDocumentId'' linkDocumentId
                      (append_truthy ''configuration'' configuration
                        (append_truthy ''entityId'' entityId [])))))))
       (\<lambda>tessellationData. io_pure
          (sum_bind
             (tessellation_text env tessellationData
                (''Tessellation Data for Sketch '' @ sketchFeatureId @
                 (case entityId of
                    Some i \<Rightarrow> if i \<noteq> [] then '' Entity '' @ i else []
                  | None \<Rightarrow> []) @ '':\<newline>''))
             (\<lambda>outputText. Inr (tool_text outputText))))"

definition get_sketch_tessellation ::
  "env \<Rightarrow> string \<Rightarrow> string \<Rightarrow> string \<Rightarrow> string \<Rightarrow> string \<Rightarrow> string option \<Rightarrow> string option \<Rightarrow>
     string option \<Rightarrow> rat option \<Rightarrow> rat option \<Rightarrow> request list \<Rightarrow>
     tool_result \<times> request list" where
  "get_sketch_tessellation env documentId wvm wvmid partStudioElementId sketchFeatureId
       entityId configuration linkDocumentId angleTolerance chordTolerance =
     try_catch
       (get_sketch_tessellation_try env documentId wvm wvmid partStudioElementId sketchFeatureId
          entityId configuration linkDocumentId angleTolerance chordTolerance)
       (\<lambda>e. tool_error (''Error getting sketch tessellation: '' @ message e))"

section \<open>The server: resources\<close>

text \<open>
  What a resource handler returns:
  \<open>{ contents: [{ uri, text, mimeType: "text/plain" }] }\<close>, with \<open>isError: true\<close> added
  on failure. A handler is called with the URI of the resource and a \<open>context\<close> value, and
  reads the variables of the URI from \<open>context.params\<close>: the document resource by a
  property read, the other three by a destructuring.
\<close>

record resource_content =
  uri :: string
  content_text :: string
  mimeType :: string

record resource_result =
  contents :: "resource_content list"
  resource_isError :: "bool option"

definition resource_text :: "string \<Rightarrow> string \<Rightarrow> resource_result" where
  "resource_text href contentText =
     \<lparr>contents = [\<lparr>uri = href, content_text = contentText, mimeType = ''text/plain''\<rparr>],
      resource_isError = None\<rparr>"

definition resource_error :: "string \<Rightarrow> string \<Rightarrow> resource_result" where
  "resource_error href errorText =
     \<lparr>contents = [\<lparr>uri = href, content_text = errorText, mimeType = ''text/plain''\<rparr>],
      resource_isError = Some True\<rparr>"

text \<open>\<open>v.toUpperCase()\<close> on a value: only a string has the method.\<close>

fun js_toUpperCase :: "env \<Rightarrow> jsval \<Rightarrow> string \<Rightarrow> error + string" where
  "js_toUpperCase env (Str s) expr = Inr (toUpperCase env s)"
| "js_toUpperCase env Undefined expr =
     Inl (TypeError (''Cannot read properties of undefined (reading '' @ [CHR 0x27] @
                     ''toUpperCase'' @ [CHR 0x27] @ '')''))"
| "js_toUpperCase env Null expr =
     Inl (TypeError (''Cannot read properties of null (reading '' @ [CHR 0x27] @
                     ''toUpperCase'' @ [CHR 0x27] @ '')''))"
| "js_toUpperCase env v expr = Inl (TypeError (expr @ ''.toUpperCase is not a function''))"

text \<open>
  The destructuring \<open>const { k, ... } = v\<close>, where \<open>expr\<close> is the text of the expression
  for \<open>v\<close> and \<open>k\<close> the first property named: it throws on \<open>null\<close> and \<open>undefined\<close>,
  and otherwise the variables are the properties of \<open>v\<close>, read without a throw.
\<close>

fun destructure :: "jsval \<Rightarrow> string \<Rightarrow> string \<Rightarrow> error + jsval" where
  "destructure Undefined expr k =
     Inl (TypeError (''Cannot destructure property '' @ [CHR 0x27] @ k @ [CHR 0x27] @ '' of '' @
                     [CHR 0x27] @ expr @ [CHR 0x27] @ '' as it is undefined.''))"
| "destructure Null expr k =
     Inl (TypeError (''Cannot destructure property '' @ [CHR 0x27] @ k @ [CHR 0x27] @ '' of '' @
                     [CHR 0x27] @ expr @ [CHR 0x27] @ '' as it is null.''))"
| "destructure v expr k = Inr v"

subsection \<open>The document resource\<close>

text \<open>
  The line of the default workspace: the URI is built first, which converts the
  identifiers of the document and of the workspace, and then the line.
\<close>

definition default_workspace_text :: "env \<Rightarrow> jsval \<Rightarrow> error + string" where
  "default_workspace_text env docInfo =
     (let defaultWorkspace = getprop_opt docInfo ''defaultWorkspace''
      in
        if truthy (getprop_opt defaultWorkspace ''id'') then
          sum_bind (js_String env (getprop_opt docInfo ''id'')) (\<lambda>doc_id.
          sum_bind (js_String env (getprop_opt defaultWorkspace ''id'')) (\<lambda>workspace_id.
          sum_bind (URL_href env (fill_wvm_template doc_id ''w'' workspace_id)) (\<lambda>href.
            template
              [Inr ''Default Workspace: '', js_String env (getprop_opt defaultWorkspace ''name''),
               Inr '' (ID: '', js_String env (getprop_opt defaultWorkspace ''id''),
               Inr '') - @wvm('', Inr href, Inr '')\<newline>''])))
        else Inr [])"

definition document_text :: "env \<Rightarrow> jsval \<Rightarrow> error + string" where
  "document_text env docInfo =
     template
       [Inr ''Onshape Document: '', prop_text env docInfo ''name'', Inr ''\<newline>'',
        Inr ''ID: '', prop_text env docInfo ''id'', Inr ''\<newline>'',
        Inr ''Description: '',
        js_String env (js_or (getprop_opt docInfo ''description'') (Str ''N/A'')), Inr ''\<newline>'',
        Inr ''Owner: '',
        js_String env (js_or (getprop_opt (getprop_opt docInfo ''owner'') ''name'') (Str ''N/A'')),
        Inr ''\<newline>'',
        Inr ''Modified At: '', prop_text env docInfo ''modifiedAt'', Inr ''\<newline>'',
        Inr ''Created At: '', prop_text env docInfo ''createdAt'', Inr ''\<newline>'',
        default_workspace_text env docInfo]"

definition document_resource_try :: "env \<Rightarrow> string \<Rightarrow> jsval \<Rightarrow> resource_result io" where
  "document_resource_try env href context =
     io_bind (io_pure (getprop context ''params'')) (\<lambda>params.
     io_bind (io_pure (getprop params ''documentId'')) (\<lambda>documentId.
     io_bind (io_pure (template [Inr ''/documents/'', js_String env documentId])) (\<lambda>path.
     io_bind (onshapeApiRequest env ''GET'' path Undefined None)
       (\<lambda>docInfo. io_pure
          (sum_bind (document_text env docInfo)
             (\<lambda>contentText. Inr (resource_text href contentText)))))))"

definition document_resource ::
  "env \<Rightarrow> string \<Rightarrow> jsval \<Rightarrow> request list \<Rightarrow> resource_result \<times> request list" where
  "document_resource env href context =
     try_catch (document_resource_try env href context)
       (\<lambda>e. resource_error href (''Error reading document: '' @ message e))"

subsection \<open>The resource of a workspace, version or microversion\<close>

definition wvm_text :: "env \<Rightarrow> string \<Rightarrow> string \<Rightarrow> jsval \<Rightarrow> error + string" where
  \<open>wvm_text env kind stamp wvmInfo =
     template
       [Inr (kind @ '': "''), prop_text env wvmInfo ''name'', Inr ''" (ID: '',
        prop_text env wvmInfo ''id'', Inr '')\<newline>'',
        Inr ''Microversion: '', prop_text env wvmInfo ''microversion'', Inr ''\<newline>'',
        Inr (stamp @ '' At: ''),
        prop_text env wvmInfo (if stamp = ''Modified'' then ''modifiedAt'' else ''createdAt''),
        Inr ''\<newline>'']\<close>

definition wvm_hint :: string where
  "wvm_hint =
     ''\<newline>Use the '' @ [CHR 0x27] @ ''list_elements'' @ [CHR 0x27] @
     '' tool with these parameters to see its contents.''"

definition wvm_resource_try :: "env \<Rightarrow> string \<Rightarrow> jsval \<Rightarrow> resource_result io" where
  "wvm_resource_try env href context =
     io_bind (io_pure (getprop context ''params'')) (\<lambda>context_params.
     io_bind (io_pure (destructure context_params ''context.params'' ''documentId'')) (\<lambda>params.
       (let documentId = getprop_opt params ''documentId'';
            wvm = getprop_opt params ''wvm'';
            wvmid = getprop_opt params ''wvmid''
        in
          io_bind
            (io_pure
               (template
                  [Inr ''Onshape Document '', js_String env documentId, Inr '' - '',
                   js_toUpperCase env wvm ''wvm'', Inr '': '', js_String env wvmid,
                   Inr ''\<newline>'']))
            (\<lambda>contentText.
          if wvm = Str ''w'' then
            io_bind
              (io_pure
                 (template
                    [Inr ''/documents/d/'', js_String env documentId, Inr ''/workspaces/'',
                     js_String env wvmid]))
              (\<lambda>path.
            io_bind (onshapeApiRequest env ''GET'' path Undefined None)
              (\<lambda>wvmInfo. io_pure
                 (sum_bind (wvm_text env ''Workspace'' ''Modified'' wvmInfo) (\<lambda>t.
                    Inr (resource_text href (contentText @ t @ wvm_hint))))))
          else if wvm = Str ''v'' then
            io_bind
              (io_pure
                 (template
                    [Inr ''/documents/d/'', js_String env documentId, Inr ''/versions/'',
                     js_String env wvmid]))
              (\<lambda>path.
            io_bind (onshapeApiRequest env ''GET'' path Undefined None)
              (\<lambda>wvmInfo. io_pure
                 (sum_bind (wvm_text env ''Version'' ''Created'' wvmInfo) (\<lambda>t.
                    Inr (resource_text href (contentText @ t @ wvm_hint))))))
          else if wvm = Str ''m'' then
            io_bind
              (io_pure
                 (template
                    [Inr ''/documents/d/'', js_String env documentId, Inr ''/'', js_String env wvm,
                     Inr ''/'', js_String env wvmid, Inr ''/currentmicroversion'']))
              (\<lambda>path.
            io_bind (onshapeApiRequest env ''GET'' path Undefined None)
              (\<lambda>wvmInfo. io_pure
                 (sum_bind
                    (template
                       [Inr ''Microversion ID: '', prop_text env wvmInfo ''microversion'',
                        Inr ''\<newline>''])
                    (\<lambda>t. Inr (resource_text href (contentText @ t @ wvm_hint))))))
          else
            io_pure
              (sum_bind (js_String env wvm) (\<lambda>t. Inl (Error (''Invalid WVM type: '' @ t))))))))"

definition wvm_resource ::
  "env \<Rightarrow> string \<Rightarrow> jsval \<Rightarrow> request list \<Rightarrow> resource_result \<times> request list" where
  "wvm_resource env href context =
     try_catch (wvm_resource_try env href context)
       (\<lambda>e. resource_error href (''Error reading WVM: '' @ message e))"

subsection \<open>The element resource\<close>

definition part_studio_tools :: string where
  "part_studio_tools =
     ''\<newline>Available Tools for Part Studio:\<newline>'' @
     ''- get_part_studio_features\<newline>'' @
     ''- list_part_studio_feature_specs\<newline>'' @
     ''- add_part_studio_feature (Workspace only)\<newline>'' @
     ''- update_part_studio_feature (Workspace only)\<newline>'' @
     ''- delete_part_studio_feature (Workspace only)\<newline>'' @
     ''- get_part_bounding_box (requires partId)\<newline>'' @
     ''- get_part_studio_bounding_box\<newline>'' @
     ''- list_part_studio_sketches\<newline>''"

definition assembly_tools :: string where
  "assembly_tools =
     ''\<newline>Available Tools for Assembly:\<newline>'' @
     ''- get_assembly_definition\<newline>'' @
     ''- add_assembly_instance (Workspace only)\<newline>'' @
     ''- transform_assembly_instance (Workspace only)\<newline>'' @
     ''- get_part_bounding_box (requires partId)\<newline>'' @
     ''- get_assembly_bounding_boxes\<newline>''"

definition element_text :: "env \<Rightarrow> jsval \<Rightarrow> jsval \<Rightarrow> error + string" where
  \<open>element_text env params elementInfo =
     template
       [Inr ''Onshape Element: "'', prop_text env elementInfo ''name'', Inr ''"\<newline>'',
        Inr ''Type: '', prop_text env elementInfo ''prettyType'', Inr ''\<newline>'',
        Inr ''ID: '', js_String env (getprop_opt params ''elementId''), Inr ''\<newline>'',
        Inr ''Document ID: '', js_String env (getprop_opt params ''documentId''), Inr ''\<newline>'',
        js_toUpperCase env (getprop_opt params ''wvm'') ''wvm'', Inr '' ID: '',
        js_String env (getprop_opt params ''wvmid''), Inr ''\<newline>'',
        if truthy (getprop_opt elementInfo ''microversionId'') then
          template
            [Inr ''Microversion ID: '', js_String env (getprop_opt elementInfo ''microversionId''),
             Inr ''\<newline>'']
        else Inr [],
        if truthy (getprop_opt elementInfo ''configuration'') then
          template
            [Inr ''Configuration: '', js_String env (getprop_opt elementInfo ''configuration''),
             Inr ''\<newline>'']
        else Inr [],
        Inr (if getprop_opt elementInfo ''elementType'' = Str ''PARTSTUDIO'' then part_studio_tools
             else if getprop_opt elementInfo ''elementType'' = Str ''ASSEMBLY'' then assembly_tools
             else [])]\<close>

definition element_resource_try :: "env \<Rightarrow> string \<Rightarrow> jsval \<Rightarrow> resource_result io" where
  "element_resource_try env href context =
     io_bind (io_pure (getprop context ''params'')) (\<lambda>context_params.
     io_bind (io_pure (destructure context_params ''context.params'' ''documentId'')) (\<lambda>params.
     io_bind
       (io_pure
          (template
             [Inr ''/documents/d/'', js_String env (getprop_opt params ''documentId''), Inr ''/'',
              js_String env (getprop_opt params ''wvm''), Inr ''/'',
              js_String env (getprop_opt params ''wvmid''), Inr ''/elements/'',
              js_String env (getprop_opt params ''elementId'')]))
       (\<lambda>path.
     io_bind (onshapeApiRequest env ''GET'' path Undefined None)
       (\<lambda>elementInfo. io_pure
          (sum_bind (element_text env params elementInfo)
             (\<lambda>contentText. Inr (resource_text href contentText)))))))"

definition element_resource ::
  "env \<Rightarrow> string \<Rightarrow> jsval \<Rightarrow> request list \<Rightarrow> resource_result \<times> request list" where
  "element_resource env href context =
     try_catch (element_resource_try env href context)
       (\<lambda>e. resource_error href (''Error reading element: '' @ message e))"

subsection \<open>The part resource\<close>

definition propertiesToList :: "string list" where
  "propertiesToList = [''Name'', ''Part Number'', ''Revision'', ''Material'', ''State'']"

text \<open>
  The line of a property: the property of that name is looked up and, when there is
  one, its value is printed, an object or an array through \<open>JSON.stringify\<close>.
\<close>

definition property_line :: "env \<Rightarrow> jsval list \<Rightarrow> string \<Rightarrow> string \<Rightarrow> error + string" where
  "property_line env properties propName contentText =
     sum_bind (find_named properties propName) (\<lambda>prop.
       if truthy prop then
         sum_bind
           (template
              [Inr (propName @ '': ''),
               if typeof_object (getprop_opt prop ''value'') then
                 Inr (JSON_stringify env (getprop_opt prop ''value''))
               else js_String env (getprop_opt prop ''value''),
               Inr ''\<newline>''])
           (\<lambda>line. Inr (contentText @ line))
       else Inr contentText)"

definition part_text :: "env \<Rightarrow> jsval \<Rightarrow> jsval \<Rightarrow> error + string" where
  "part_text env params partMetadata =
     sum_bind
       (template
          [Inr ''Onshape Part (Identity: '', js_String env (getprop_opt params ''partId''),
           Inr '')\<newline>'',
           Inr ''From Element ID: '', js_String env (getprop_opt params ''elementId''),
           Inr ''\<newline>'',
           Inr ''From Document ID: '', js_String env (getprop_opt params ''documentId''),
           Inr ''\<newline>'',
           Inr ''From '', js_toUpperCase env (getprop_opt params ''wvm'') ''wvm'', Inr '' ID: '',
           js_String env (getprop_opt params ''wvmid''), Inr ''\<newline>''])
       (\<lambda>contentText.
     sum_bind (getprop partMetadata ''properties'') (\<lambda>properties.
       case properties of
         Arr ps \<Rightarrow> iterate (property_line env ps) propertiesToList contentText
       | v \<Rightarrow> Inr (contentText @ ''Could not retrieve detailed properties.\<newline>'')))"

definition part_resource_try :: "env \<Rightarrow> string \<Rightarrow> jsval \<Rightarrow> resource_result io" where
  "part_resource_try env href context =
     io_bind (io_pure (getprop context ''params'')) (\<lambda>context_params.
     io_bind (io_pure (destructure context_params ''context.params'' ''documentId'')) (\<lambda>params.
     io_bind
       (io_pure
          (template
             [Inr ''/metadata/d/'', js_String env (getprop_opt params ''documentId''), Inr ''/'',
              js_String env (getprop_opt params ''wvm''), Inr ''/'',
              js_String env (getprop_opt params ''wvmid''), Inr ''/e/'',
              js_String env (getprop_opt params ''elementId''), Inr ''/pi/'',
              js_String env (getprop_opt params ''partId'')]))
       (\<lambda>path.
     io_bind (onshapeApiRequest env ''GET'' path Undefined None)
       (\<lambda>partMetadata. io_pure
          (sum_bind (part_text env params partMetadata)
             (\<lambda>contentText. Inr (resource_text href contentText)))))))"

definition part_resource ::
  "env \<Rightarrow> string \<Rightarrow> jsval \<Rightarrow> request list \<Rightarrow> resource_result \<times> request list" where
  "part_resource env href context =
     try_catch (part_resource_try env href context)
       (\<lambda>e. resource_error href (''Error reading part: '' @ message e))"

section \<open>The registered operations\<close>

text \<open>
  \<open>startServer\<close> registers four resources and eighteen tools. A call names one of them
  and carries its arguments: for a resource the URI and the \<open>context\<close> value, for a tool
  the parameters declared by its schema, in the order of the schema, an optional
  parameter being \<open>None\<close> when the caller leaves it out.
\<close>

datatype call =
    DocumentResource string jsval
  | WvmResource string jsval
  | ElementResource string jsval
  | PartResource string jsval
  | ListDocuments
  | ListElements string string string "string option"
  | CreateDocument string
  | CreatePartStudio string string string
  | CreateAssembly string string string
  | ListPartStudioFeatureSpecs string string string string
  | GetPartStudioFeatures string string string string "string option" "string option"
  | AddPartStudioFeature string string string jsval
  | UpdatePartStudioFeature string string string string jsval
  | DeletePartStudioFeature string string string string
  | GetAssemblyDefinition string string string string "string option" "string option"
      "bool option" "bool option" "bool option" "bool option"
  | AddAssemblyInstance string string string string string "string option" "string option"
      "string option" "string option" "rat list option"
  | TransformAssemblyInstances string string string "jsval list" "rat list" "bool option"
  | GetPartBoundingBox string string string string string "string option" "string option"
  | GetElementBoundingBox string string string string "string option" "string option"
  | GetElementConfigurationDefinition string string string string "string option"
  | ListPartStudioSketches string string string string "string option" "string option"
  | GetSketchTessellation string string string string string "string option" "string option"
      "string option" "rat option" "rat option"

datatype reply = ToolReply tool_result | ResourceReply resource_result

definition as_tool :: "tool_result \<times> request list \<Rightarrow> reply \<times> request list" where
  "as_tool r = (ToolReply (fst r), snd r)"

definition as_resource :: "resource_result \<times> request list \<Rightarrow> reply \<times> request list" where
  "as_resource r = (ResourceReply (fst r), snd r)"

text \<open>What the handler of the called operation returns.\<close>

fun handle :: "env \<Rightarrow> call \<Rightarrow> request list \<Rightarrow> reply \<times> request list" where
  "handle env (DocumentResource href context) sent =
     as_resource (document_resource env href context sent)"
| "handle env (WvmResource href context) sent = as_resource (wvm_resource env href context sent)"
| "handle env (ElementResource href context) sent =
     as_resource (element_resource env href context sent)"
| "handle env (PartResource href context) sent = as_resource (part_resource env href context sent)"
| "handle env ListDocuments sent = as_tool (list_documents env sent)"
| "handle env (ListElements d wvm wvmid elementType) sent =
     as_tool (list_elements env d wvm wvmid elementType sent)"
| "handle env (CreateDocument name) sent = as_tool (create_document env name sent)"
| "handle env (CreatePartStudio d w name) sent = as_tool (create_part_studio env d w name sent)"
| "handle env (CreateAssembly d w name) sent = as_tool (create_assembly env d w name sent)"
| "handle env (ListPartStudioFeatureSpecs d wvm wvmid e) sent =
     as_tool (list_part_studio_feature_specs env d wvm wvmid e sent)"
| "handle env (GetPartStudioFeatures d wvm wvmid e configuration linkDocumentId) sent =
     as_tool (get_part_studio_features env d wvm wvmid e configuration linkDocumentId sent)"
| "handle env (AddPartStudioFeature d w e feature) sent =
     as_tool (add_part_studio_feature env d w e feature sent)"
| "handle env (UpdatePartStudioFeature d w e featureId feature) sent =
     as_tool (update_part_studio_feature env d w e featureId feature sent)"
| "handle env (DeletePartStudioFeature d w e featureId) sent =
     as_tool (delete_part_studio_feature env d w e featureId sent)"
| "handle env (GetAssemblyDefinition d wvm wvmid e configuration explodedViewId
       includeMateFeatures includeNonSolids includeMateConnectors excludeSuppressed) sent =
     as_tool (get_assembly_definition env d wvm wvmid e configuration explodedViewId
       includeMateFeatures includeNonSolids includeMateConnectors excludeSuppressed sent)"
| "handle env (AddAssemblyInstance d w e sourceDocumentId sourceElementId sourceVersionId
       sourceMicroversionId sourcePartId sourceConfiguration transform) sent =
     as_tool (add_assembly_instance env d w e sourceDocumentId sourceElementId sourceVersionId
       sourceMicroversionId sourcePartId sourceConfiguration transform sent)"
| "handle env (TransformAssemblyInstances d w e occurrences transform isRelative) sent =
     as_tool (transform_assembly_instances env d w e occurrences transform isRelative sent)"
| "handle env (GetPartBoundingBox d wvm wvmid e partId configuration linkDocumentId) sent =
     as_tool (get_part_bounding_box env d wvm wvmid e partId configuration linkDocumentId sent)"
| "handle env (GetElementBoundingBox d wvm wvmid e configuration linkDocumentId) sent =
     as_tool (get_element_bounding_box env d wvm wvmid e configuration linkDocumentId sent)"
| "handle env (GetElementConfigurationDefinition d wvm wvmid e linkDocumentId) sent =
     as_tool (get_element_configuration_definition env d wvm wvmid e linkDocumentId sent)"
| "handle env (ListPartStudioSketches d wvm wvmid e configuration linkDocumentId) sent =
     as_tool (list_part_studio_sketches env d wvm wvmid e configuration linkDocumentId sent)"
| "handle env (GetSketchTessellation d wvm wvmid e sketchFeatureId entityId configuration
       linkDocumentId angleTolerance chordTolerance) sent =
     as_tool (get_sketch_tessellation env d wvm wvmid e sketchFeatureId entityId configuration
       linkDocumentId angleTolerance chordTolerance sent)"

text \<open>
  The error that the \<open>try\<close> block of the called operation throws, if it throws, with the
  requests issued by then.
\<close>

definition thrown :: "'a io \<Rightarrow> request list \<Rightarrow> (error \<times> request list) option" where
  "thrown block sent =
     (case block sent of
        (Inl e, sent') \<Rightarrow> Some (e, sent')
      | (Inr r, sent') \<Rightarrow> None)"

fun handler_throws :: "env \<Rightarrow> call \<Rightarrow> request list \<Rightarrow> (error \<times> request list) option" where
  "handler_throws env (DocumentResource href context) sent =
     thrown (document_resource_try env href context) sent"
| "handler_throws env (WvmResource href context) sent =
     thrown (wvm_resource_try env href context) sent"
| "handler_throws env (ElementResource href context) sent =
     thrown (element_resource_try env href context) sent"
| "handler_throws env (PartResource href context) sent =
     thrown (part_resource_try env href context) sent"
| "handler_throws env ListDocuments sent = thrown (list_documents_try env) sent"
| "handler_throws env (ListElements d wvm wvmid elementType) sent =
     thrown (list_elements_try env d wvm wvmid elementType) sent"
| "handler_throws env (CreateDocument name) sent = thrown (create_document_try env name) sent"
| "handler_throws env (CreatePartStudio d w name) sent =
     thrown (create_element_try env ''partstudios'' ''Part Studio'' d w name) sent"
| "handler_throws env (CreateAssembly d w name) sent =
     thrown (create_element_try env ''assemblies'' ''Assembly'' d w name) sent"
| "handler_throws env (ListPartStudioFeatureSpecs d wvm wvmid e) sent =
     thrown (list_part_studio_feature_specs_try env d wvm wvmid e) sent"
| "handler_throws env (GetPartStudioFeatures d wvm wvmid e configuration linkDocumentId) sent =
     thrown (get_part_studio_features_try env d wvm wvmid e configuration linkDocumentId) sent"
| "handler_throws env (AddPartStudioFeature d w e feature) sent =
     (case add_part_studio_feature_try env d w e feature sent of
        (Inl (err, fdc), sent') \<Rightarrow> Some (err, sent')
      | (Inr r, sent') \<Rightarrow> None)"
| "handler_throws env (UpdatePartStudioFeature d w e featureId feature) sent =
     thrown (update_part_studio_feature_try env d w e featureId feature) sent"
| "handler_throws env (DeletePartStudioFeature d w e featureId) sent =
     thrown (delete_part_studio_feature_try env d w e featureId) sent"
| "handler_throws env (GetAssemblyDefinition d wvm wvmid e configuration explodedViewId
       includeMateFeatures includeNonSolids includeMateConnectors excludeSuppressed) sent =
     thrown (get_assembly_definition_try env d wvm wvmid e configuration explodedViewId
       includeMateFeatures includeNonSolids includeMateConnectors excludeSuppressed) sent"
| "handler_throws env (AddAssemblyInstance d w e sourceDocumentId sourceElementId
       sourceVersionId sourceMicroversionId sourcePartId sourceConfiguration transform) sent =
     thrown (add_assembly_instance_try env d w e sourceDocumentId sourceElementId
       sourceVersionId sourceMicroversionId sourcePartId sourceConfiguration transform) sent"
| "handler_throws env (TransformAssemblyInstances d w e occurrences transform isRelative) sent =
     thrown (transform_assembly_instances_try env d w e occurrences transform isRelative) sent"
| "handler_throws env (GetPartBoundingBox d wvm wvmid e partId configuration linkDocumentId) sent =
     thrown (get_part_bounding_box_try env d wvm wvmid e partId configuration linkDocumentId) sent"
| "handler_throws env (GetElementBoundingBox d wvm wvmid e configuration linkDocumentId) sent =
     thrown (get_element_bounding_box_try env d wvm wvmid e configuration linkDocumentId) sent"
| "handler_throws env (GetElementConfigurationDefinition d wvm wvmid e linkDocumentId) sent =
     thrown (get_element_configuration_definition_try env d wvm wvmid e linkDocumentId) sent"
| "handler_throws env (ListPartStudioSketches d wvm wvmid e configuration linkDocumentId) sent =
     thrown (list_part_studio_sketches_try env d wvm wvmid e configuration linkDocumentId) sent"
| "handler_throws env (GetSketchTessellation d wvm wvmid e sketchFeatureId entityId
       configuration linkDocumentId angleTolerance chordTolerance) sent =
     thrown (get_sketch_tessellation_try env d wvm wvmid e sketchFeatureId entityId
       configuration linkDocumentId angleTolerance chordTolerance) sent"

text \<open>
  The error envelope: one text entry and \<open>isError: true\<close>. \<open>reply_text\<close> is the text
  of a reply with one entry.
\<close>

fun error_envelope :: "reply \<Rightarrow> bool" where
  "error_envelope (ToolReply r) =
     (isError r = Some True \<and>
      (case content r of
         [b] \<Rightarrow> block_type b = ''text''
       | bs \<Rightarrow> False))"
| "error_envelope (ResourceReply r) =
     (resource_isError r = Some True \<and>
      (case contents r of
         [c] \<Rightarrow> mimeType c = ''text/plain''
       | cs \<Rightarrow> False))"

fun reply_text :: "reply \<Rightarrow> string" where
  "reply_text (ToolReply r) = concat (map block_text (content r))"
| "reply_text (ResourceReply r) = concat (map content_text (contents r))"

section \<open>The resource locator\<close>

text \<open>
  The addresses of the specification: a document; a document in a state; an element of a
  document in a state; a part of such an element. The state selector is a workspace, a
  version or a microversion, each with its identifier, and is written \<open>w\<close>, \<open>v\<close> or
  \<open>m\<close>.
\<close>

datatype state_selector = Workspace string | Version string | Microversion string

datatype address =
    Document string
  | DocumentState string state_selector
  | Element string state_selector string
  | Part string state_selector string string













section \<open>A simulated backend\<close>

text \<open>
  A backend that answers the \<open>n\<close>-th request with the \<open>n\<close>-th of a list of canned
  responses and refuses the connection after the last, and a runtime with simple
  built-ins: the concrete environment at which the theorems below are instantiated.
\<close>

definition sim_fetch :: "response list \<Rightarrow> request list \<Rightarrow> request \<Rightarrow> error + response" where
  "sim_fetch canned sent req =
     (if length sent < length canned then Inr (canned ! length sent)
      else Inl (FetchError ''connect ECONNREFUSED''))"

definition sim_reply :: "nat \<Rightarrow> string \<Rightarrow> string \<Rightarrow> response" where
  "sim_reply code reason txt =
     \<lparr>ok = (200 \<le> code \<and> code < 300), status = code, statusText = reason, body_text = txt\<rparr>"

fun sim_stringify :: "jsval \<Rightarrow> string" where
  "sim_stringify (Obj kvs) = ''{...}''"
| "sim_stringify (Arr xs) = ''[...]''"
| "sim_stringify v = ''...''"

fun sim_form_encode :: "string \<Rightarrow> string" where
  "sim_form_encode [] = []"
| "sim_form_encode (c # cs) =
     (if c = CHR '','' then ''%2C'' else if c = CHR '' '' then ''+'' else [c]) @ sim_form_encode cs"

fun sim_query :: "(string \<times> string) list \<Rightarrow> string" where
  "sim_query [] = []"
| "sim_query [(k, v)] = sim_form_encode k @ ''='' @ sim_form_encode v"
| "sim_query ((k, v) # kvs) =
     sim_form_encode k @ ''='' @ sim_form_encode v @ ''&'' @ sim_query kvs"

definition sim_parse :: "(string \<times> jsval) list \<Rightarrow> string \<Rightarrow> error + jsval" where
  "sim_parse table txt =
     (case map_of table txt of
        Some v \<Rightarrow> Inr v
      | None \<Rightarrow> Inl (SyntaxError ''Unexpected token''))"

definition sim_env :: "response list \<Rightarrow> (string \<times> jsval) list \<Rightarrow> env" where
  "sim_env canned table =
     \<lparr>ONSHAPE_API_URL = ''https://cad.onshape.com/api/v1'',
      authHeader = ''Basic a2V5OnNlY3JldA=='',
      fetch = sim_fetch canned,
      JSON_parse = sim_parse table,
      JSON_stringify = sim_stringify,
      JSON_stringify_indent = sim_stringify,
      Number_toString = (\<lambda>x. ''[number]''),
      StringToNumber = (\<lambda>s. NaN),
      toUpperCase = (\<lambda>s. s),
      encodeURIComponent = Inr,
      URLSearchParams_toString = sim_query,
      URL_href = Inr\<rparr>"

text \<open>
  Bodies that the simulated backend sends, with the values they parse to: a feature-list
  snapshot, a snapshot without \<open>libraryVersion\<close>, and the responses to a write whose
  feature evaluates to an error, to a write that the backend flags with a skew, and to a
  write whose feature evaluates to an error and whose new microversion is an object that
  cannot be converted to a string.
\<close>

definition snapshot_json :: string where
  \<open>snapshot_json =
     ''{"serializationVersion":"1.2.4","libraryVersion":2014,"sourceMicroversion":"mv1","features":[]}''\<close>

definition snapshot :: jsval where
  "snapshot =
     Obj [(''serializationVersion'', Str ''1.2.4''), (''libraryVersion'', Num 2014),
          (''sourceMicroversion'', Str ''mv1''), (''features'', Arr [])]"

definition partial_json :: string where
  \<open>partial_json = ''{"serializationVersion":"1.2.4","sourceMicroversion":"mv1","features":[]}''\<close>

definition partial_snapshot :: jsval where
  "partial_snapshot =
     Obj [(''serializationVersion'', Str ''1.2.4''), (''sourceMicroversion'', Str ''mv1''),
          (''features'', Arr [])]"

definition failed_feature_json :: string where
  \<open>failed_feature_json = ''{"sourceMicroversion":"mv2","featureState":{"featureStatus":"ERROR"}}''\<close>

definition failed_feature :: jsval where
  "failed_feature =
     Obj [(''sourceMicroversion'', Str ''mv2''),
          (''featureState'', Obj [(''featureStatus'', Str ''ERROR'')])]"

definition skewed_json :: string where
  \<open>skewed_json = ''{"sourceMicroversion":"mv2","microversionSkew":true}''\<close>

definition skewed :: jsval where
  "skewed = Obj [(''sourceMicroversion'', Str ''mv2''), (''microversionSkew'', Bool True)]"

definition unskewed_json :: string where
  \<open>unskewed_json = ''{"sourceMicroversion":"mv2"}''\<close>

definition unskewed :: jsval where
  "unskewed = Obj [(''sourceMicroversion'', Str ''mv2'')]"

definition unprintable_json :: string where
  \<open>unprintable_json =
     ''{"sourceMicroversion":{"toString":1},"featureState":{"featureStatus":"ERROR"}}''\<close>

definition unprintable :: jsval where
  "unprintable =
     Obj [(''sourceMicroversion'', Obj [(''toString'', Num 1)]),
          (''featureState'', Obj [(''featureStatus'', Str ''ERROR'')])]"

definition sim_table :: "(string \<times> jsval) list" where
  "sim_table =
     [(snapshot_json, snapshot), (partial_json, partial_snapshot),
      (failed_feature_json, failed_feature), (skewed_json, skewed), (unskewed_json, unskewed),
      (unprintable_json, unprintable)]"

section \<open>Properties of the transport client\<close>

text \<open>
  C8. Every call of \<open>onshapeApiRequest\<close> whose request the backend answers ends in one
  of three ways. A response that is not a success makes the call fail with an error
  whose message carries the status, the status text and the raw body. A success with an
  empty body returns the empty object, and the parser is not consulted. A success with
  a body returns what \<open>JSON.parse\<close> makes of the body.
\<close>

theorem onshapeApiRequest_outcomes:
  assumes "fetch env sent (request_options env meth path bdy q) = Inr resp"
  shows "(\<not> ok resp \<longrightarrow>
            fst (onshapeApiRequest env meth path bdy q sent) =
              Inl (Error (''Onshape API Error: '' @ show_nat (status resp) @ '' '' @
                          statusText resp @ '' - '' @ body_text resp)))
       \<and> (ok resp \<and> body_text resp = [] \<longrightarrow>
            fst (onshapeApiRequest env meth path bdy q sent) = Inr (Obj []))
       \<and> (ok resp \<and> body_text resp \<noteq> [] \<longrightarrow>
            fst (onshapeApiRequest env meth path bdy q sent) = JSON_parse env (body_text resp))"
  using assms by (simp add: onshapeApiRequest_def)

theorem onshapeApiRequest_outcomes_witness:
  "fst (onshapeApiRequest (sim_env [sim_reply 404 ''Not Found'' ''no such document''] [])
          ''GET'' ''/documents/D1'' Undefined None [])
     = Inl (Error ''Onshape API Error: 404 Not Found - no such document'')
   \<and> fst (onshapeApiRequest (sim_env [sim_reply 200 ''OK'' []] [])
          ''GET'' ''/documents/D1'' Undefined None [])
     = Inr (Obj [])
   \<and> fst (onshapeApiRequest (sim_env [sim_reply 200 ''OK'' ''[]''] [(''[]'', Arr [])])
          ''GET'' ''/documents/D1'' Undefined None [])
     = Inr (Arr [])"
proof -
  let ?e1 = "sim_env [sim_reply 404 ''Not Found'' ''no such document''] []"
  let ?e2 = "sim_env [sim_reply 200 ''OK'' []] []"
  let ?e3 = "sim_env [sim_reply 200 ''OK'' ''[]''] [(''[]'', Arr [])]"
  have f1: "fetch ?e1 [] (request_options ?e1 ''GET'' ''/documents/D1'' Undefined None)
              = Inr (sim_reply 404 ''Not Found'' ''no such document'')"
    by (simp add: sim_env_def sim_fetch_def)
  have f2: "fetch ?e2 [] (request_options ?e2 ''GET'' ''/documents/D1'' Undefined None)
              = Inr (sim_reply 200 ''OK'' [])"
    by (simp add: sim_env_def sim_fetch_def)
  have f3: "fetch ?e3 [] (request_options ?e3 ''GET'' ''/documents/D1'' Undefined None)
              = Inr (sim_reply 200 ''OK'' ''[]'')"
    by (simp add: sim_env_def sim_fetch_def)
  have n: "show_nat 404 = ''404''"
    by (simp add: show_nat.simps)
  show ?thesis
    using onshapeApiRequest_outcomes [OF f1] onshapeApiRequest_outcomes [OF f2]
      onshapeApiRequest_outcomes [OF f3] n
    by (simp add: sim_reply_def sim_env_def sim_parse_def)
qed

section \<open>Properties of the feature-list mutations\<close>

lemma onshapeApiRequest_sent:
  "snd (onshapeApiRequest env meth path bdy q sent) = sent @ [request_options env meth path bdy q]"
  by (simp add: onshapeApiRequest_def Let_def)

lemma onshapeApiRequest_sentD:
  "onshapeApiRequest env meth path bdy q sent = (r, sent') \<Longrightarrow>
     sent' = sent @ [request_options env meth path bdy q]"
  using onshapeApiRequest_sent [of env meth path bdy q sent] by simp

lemma getprop_opt_eq: "getprop v k = Inr x \<Longrightarrow> getprop_opt v k = x"
  by (cases v) simp_all

lemma getprop_not_nullish: "getprop v k = Inr x \<Longrightarrow> v \<noteq> Undefined \<and> v \<noteq> Null"
  by (cases v) simp_all

lemma getprop_defined: "v \<noteq> Undefined \<Longrightarrow> v \<noteq> Null \<Longrightarrow> getprop v k = Inr (getprop_opt v k)"
  by (cases v) simp_all

lemma truthy_getprop: "truthy v \<Longrightarrow> getprop v k = Inr (getprop_opt v k)"
  by (cases v) simp_all

text \<open>
  C2. When the snapshot that \<open>add_part_studio_feature\<close> or \<open>update_part_studio_feature\<close>
  reads before its write lacks \<open>serializationVersion\<close>, \<open>libraryVersion\<close> or
  \<open>sourceMicroversion\<close> (the property is absent, or falsy), the tool returns an error
  result whose text carries the message of the failed precondition, and the read is the
  only request it has issued: no write is attempted.
\<close>

theorem missing_stamps_fail_before_write:
  assumes "onshapeApiRequest env ''GET'' (features_path d w e) Undefined None sent = (Inr cur, sent')"
    and "\<not> truthy (getprop_opt cur ''serializationVersion'')
         \<or> \<not> truthy (getprop_opt cur ''libraryVersion'')
         \<or> \<not> truthy (getprop_opt cur ''sourceMicroversion'')"
  shows "add_part_studio_feature env d w e feature sent =
           (tool_error (''Error adding feature: '' @
              ''Failed to fetch necessary Part Studio metadata for adding feature.'' @
              ''  + undefined''),
            sent @ [request_options env ''GET'' (features_path d w e) Undefined None])
       \<and> update_part_studio_feature env d w e fid feature sent =
           (tool_error (''Error updating feature '' @ fid @ '': '' @
              ''Failed to fetch necessary Part Studio metadata for updating feature.''),
            sent @ [request_options env ''GET'' (features_path d w e) Undefined None])
       \<and> isError (fst (add_part_studio_feature env d w e feature sent)) = Some True
       \<and> isError (fst (update_part_studio_feature env d w e fid feature sent)) = Some True"
proof -
  from assms(2) have missing: "\<not> has_stamps cur"
    by (auto simp: has_stamps_def)
  from assms(1) have sent': "sent' = sent @ [request_options env ''GET'' (features_path d w e) Undefined None]"
    by (rule onshapeApiRequest_sentD)
  have add: "add_part_studio_feature env d w e feature sent =
           (tool_error (''Error adding feature: '' @
              ''Failed to fetch necessary Part Studio metadata for adding feature.'' @
              ''  + undefined''), sent')"
    using assms(1) missing
    by (simp add: add_part_studio_feature_def add_part_studio_feature_try_def)
  have upd: "update_part_studio_feature env d w e fid feature sent =
           (tool_error (''Error updating feature '' @ fid @ '': '' @
              ''Failed to fetch necessary Part Studio metadata for updating feature.''), sent')"
    using assms(1) missing
    by (simp add: update_part_studio_feature_def update_part_studio_feature_try_def
        try_catch_def io_bind_def io_pure_def)
  show ?thesis
    unfolding add upd sent' by (simp add: tool_error_def)
qed

lemmas sim_defs =
  sim_env_def sim_fetch_def sim_reply_def sim_parse_def sim_table_def
  snapshot_json_def snapshot_def partial_json_def partial_snapshot_def
  failed_feature_json_def failed_feature_def skewed_json_def skewed_def
  unskewed_json_def unskewed_def unprintable_json_def unprintable_def

theorem missing_stamps_fail_before_write_witness:
  "add_part_studio_feature (sim_env [sim_reply 200 ''OK'' partial_json] sim_table)
       ''D1'' ''W1'' ''E1'' (Obj []) [] =
     (tool_error (''Error adding feature: '' @
        ''Failed to fetch necessary Part Studio metadata for adding feature.'' @
        ''  + undefined''),
      [request_options (sim_env [sim_reply 200 ''OK'' partial_json] sim_table)
         ''GET'' (features_path ''D1'' ''W1'' ''E1'') Undefined None])
   \<and> update_part_studio_feature (sim_env [sim_reply 200 ''OK'' partial_json] sim_table)
       ''D1'' ''W1'' ''E1'' ''F1'' (Obj []) [] =
     (tool_error (''Error updating feature F1: '' @
        ''Failed to fetch necessary Part Studio metadata for updating feature.''),
      [request_options (sim_env [sim_reply 200 ''OK'' partial_json] sim_table)
         ''GET'' (features_path ''D1'' ''W1'' ''E1'') Undefined None])"
proof -
  let ?env = "sim_env [sim_reply 200 ''OK'' partial_json] sim_table"
  let ?req = "request_options ?env ''GET'' (features_path ''D1'' ''W1'' ''E1'') Undefined None"
  have rd: "onshapeApiRequest ?env ''GET'' (features_path ''D1'' ''W1'' ''E1'') Undefined None []
              = (Inr partial_snapshot, [?req])"
    by (simp add: onshapeApiRequest_def sim_defs)
  have missing: "\<not> truthy (getprop_opt partial_snapshot ''serializationVersion'')
         \<or> \<not> truthy (getprop_opt partial_snapshot ''libraryVersion'')
         \<or> \<not> truthy (getprop_opt partial_snapshot ''sourceMicroversion'')"
    by (simp add: partial_snapshot_def)
  show ?thesis
    using missing_stamps_fail_before_write [OF rd missing, of "Obj []" "''F1''"]
    by simp
qed

text \<open>The warning line of \<open>add\<close> and \<open>update\<close>.\<close>

lemma feature_state_text_error:
  assumes "getprop response ''featureState'' = Inr fs"
    and "getprop fs ''featureStatus'' = Inr (Str ''ERROR'')"
    and "js_String env (getprop_opt fs ''errorMessage'') = Inr msg"
  shows "\<exists>post. feature_state_text env verb response outputText =
           Inr (outputText @ ''Warning: The '' @ verb @
                '' feature resulted in an error state.\<newline>'' @ post)"
proof -
  from assms(1) have fs: "getprop_opt response ''featureState'' = fs"
    by (rule getprop_opt_eq)
  from assms(2) have st: "getprop_opt fs ''featureStatus'' = Str ''ERROR''"
    by (rule getprop_opt_eq)
  from assms(2) have "truthy fs"
    by (cases fs) (auto split: if_splits option.splits)
  then show ?thesis
    by (simp add: feature_state_text_def fs st Let_def sum_bind_def assms(3))
qed

lemma add_feature_text_head:
  assumes "response \<noteq> Undefined \<and> response \<noteq> Null"
    and "js_String env (getprop_opt response ''sourceMicroversion'') = Inr smv"
    and "js_String env (getprop_opt (getprop_opt response ''feature'') ''name'') = Inr nm"
    and "js_String env (getprop_opt (getprop_opt response ''feature'') ''featureId'') = Inr fi"
  shows "\<exists>t. add_feature_text env fdc response = feature_state_text env ''added'' response t"
proof -
  from assms(1) have rd: "getprop response ''feature'' = Inr (getprop_opt response ''feature'')"
    and rs: "getprop response ''sourceMicroversion'' =
      Inr (getprop_opt response ''sourceMicroversion'')"
    by (simp_all add: getprop_defined)
  show ?thesis
    by (cases "truthy (getprop_opt response ''feature'') \<and>
               truthy (getprop_opt (getprop_opt response ''feature'') ''name'')";
        cases "truthy (getprop_opt response ''feature'') \<and>
               truthy (getprop_opt (getprop_opt response ''feature'') ''featureId'')")
      (simp_all add: add_feature_text_def rd rs sum_bind_def prop_text_def assms(2,3,4), blast+)
qed

lemma update_feature_text_head:
  assumes "response \<noteq> Undefined \<and> response \<noteq> Null"
    and "js_String env (getprop_opt response ''sourceMicroversion'') = Inr smv"
  shows "\<exists>t. update_feature_text env fid response =
           feature_state_text env ''updated'' response t"
proof -
  from assms(1) have rs: "getprop response ''sourceMicroversion'' =
      Inr (getprop_opt response ''sourceMicroversion'')"
    by (simp add: getprop_defined)
  show ?thesis
    by (simp add: update_feature_text_def rs sum_bind_def prop_text_def assms(2)) blast
qed

lemma add_feature_text_error:
  assumes "getprop response ''featureState'' = Inr fs"
    and "getprop fs ''featureStatus'' = Inr (Str ''ERROR'')"
    and "js_String env (getprop_opt fs ''errorMessage'') = Inr msg"
    and "js_String env (getprop_opt response ''sourceMicroversion'') = Inr smv"
    and "js_String env (getprop_opt (getprop_opt response ''feature'') ''name'') = Inr nm"
    and "js_String env (getprop_opt (getprop_opt response ''feature'') ''featureId'') = Inr fi"
  shows "\<exists>pre post. add_feature_text env fdc response =
           Inr (pre @ ''Warning: The added feature resulted in an error state.\<newline>'' @ post)"
proof -
  from assms(1) have "response \<noteq> Undefined \<and> response \<noteq> Null"
    by (rule getprop_not_nullish)
  then obtain t where eq1: "add_feature_text env fdc response =
      feature_state_text env ''added'' response t"
    using add_feature_text_head [OF _ assms(4,5,6)] by blast
  obtain post where p: "feature_state_text env ''added'' response t =
      Inr (t @ ''Warning: The '' @ ''added'' @ '' feature resulted in an error state.\<newline>'' @ post)"
    using feature_state_text_error [OF assms(1,2,3)] by blast
  have eq2: "''Warning: The '' @ ''added'' @ '' feature resulted in an error state.\<newline>'' @ post =
      ''Warning: The added feature resulted in an error state.\<newline>'' @ post"
    by simp
  show ?thesis
    unfolding eq1 p eq2 by blast
qed

lemma update_feature_text_error:
  assumes "getprop response ''featureState'' = Inr fs"
    and "getprop fs ''featureStatus'' = Inr (Str ''ERROR'')"
    and "js_String env (getprop_opt fs ''errorMessage'') = Inr msg"
    and "js_String env (getprop_opt response ''sourceMicroversion'') = Inr smv"
  shows "\<exists>pre post. update_feature_text env fid response =
           Inr (pre @ ''Warning: The updated feature resulted in an error state.\<newline>'' @ post)"
proof -
  from assms(1) have "response \<noteq> Undefined \<and> response \<noteq> Null"
    by (rule getprop_not_nullish)
  then obtain t where eq1: "update_feature_text env fid response =
      feature_state_text env ''updated'' response t"
    using update_feature_text_head [OF _ assms(4)] by blast
  obtain post where p: "feature_state_text env ''updated'' response t =
      Inr (t @ ''Warning: The '' @ ''updated'' @ '' feature resulted in an error state.\<newline>'' @ post)"
    using feature_state_text_error [OF assms(1,2,3)] by blast
  have eq2: "''Warning: The '' @ ''updated'' @ '' feature resulted in an error state.\<newline>'' @ post =
      ''Warning: The updated feature resulted in an error state.\<newline>'' @ post"
    by simp
  show ?thesis
    unfolding eq1 p eq2 by blast
qed

text \<open>
  C3, as the claim has it, fails at a response whose feature state is an error and whose
  \<open>sourceMicroversion\<close> is an object with an own property \<open>toString\<close>: the template
  literal that prints the new microversion throws, and both tools return an error result.
\<close>

theorem unprintable_microversion_fails_counterexample:
  "getprop_opt (getprop_opt unprintable ''featureState'') ''featureStatus'' = Str ''ERROR''
   \<and> update_part_studio_feature
       (sim_env [sim_reply 200 ''OK'' snapshot_json, sim_reply 200 ''OK'' unprintable_json] sim_table)
       ''D1'' ''W1'' ''E1'' ''F1'' (Obj []) [] =
     (tool_error ''Error updating feature F1: Cannot convert object to primitive value'',
      [request_options
         (sim_env [sim_reply 200 ''OK'' snapshot_json, sim_reply 200 ''OK'' unprintable_json] sim_table)
         ''GET'' (features_path ''D1'' ''W1'' ''E1'') Undefined None,
       request_options
         (sim_env [sim_reply 200 ''OK'' snapshot_json, sim_reply 200 ''OK'' unprintable_json] sim_table)
         ''POST'' (features_path ''D1'' ''W1'' ''E1'' @ ''/featureid/F1'')
         (featureDefinitionCall (Obj []) snapshot) None])
   \<and> isError (fst (update_part_studio_feature
       (sim_env [sim_reply 200 ''OK'' snapshot_json, sim_reply 200 ''OK'' unprintable_json] sim_table)
       ''D1'' ''W1'' ''E1'' ''F1'' (Obj []) [])) = Some True
   \<and> isError (fst (add_part_studio_feature
       (sim_env [sim_reply 200 ''OK'' snapshot_json, sim_reply 200 ''OK'' unprintable_json] sim_table)
       ''D1'' ''W1'' ''E1'' (Obj []) [])) = Some True"
proof -
  have st: "getprop_opt (getprop_opt unprintable ''featureState'') ''featureStatus'' = Str ''ERROR''"
    by (simp add: unprintable_def)
  have upd: "update_part_studio_feature
       (sim_env [sim_reply 200 ''OK'' snapshot_json, sim_reply 200 ''OK'' unprintable_json] sim_table)
       ''D1'' ''W1'' ''E1'' ''F1'' (Obj []) [] =
     (tool_error ''Error updating feature F1: Cannot convert object to primitive value'',
      [request_options
         (sim_env [sim_reply 200 ''OK'' snapshot_json, sim_reply 200 ''OK'' unprintable_json] sim_table)
         ''GET'' (features_path ''D1'' ''W1'' ''E1'') Undefined None,
       request_options
         (sim_env [sim_reply 200 ''OK'' snapshot_json, sim_reply 200 ''OK'' unprintable_json] sim_table)
         ''POST'' (features_path ''D1'' ''W1'' ''E1'' @ ''/featureid/F1'')
         (featureDefinitionCall (Obj []) snapshot) None])"
    by (simp add: update_part_studio_feature_def update_part_studio_feature_try_def
        try_catch_def io_bind_def io_pure_def sum_bind_def onshapeApiRequest_def
        has_stamps_def update_feature_text_def prop_text_def Let_def sim_defs)
  have add: "isError (fst (add_part_studio_feature
       (sim_env [sim_reply 200 ''OK'' snapshot_json, sim_reply 200 ''OK'' unprintable_json] sim_table)
       ''D1'' ''W1'' ''E1'' (Obj []) [])) = Some True"
    by (simp add: add_part_studio_feature_def add_part_studio_feature_try_def
        sum_bind_def onshapeApiRequest_def has_stamps_def add_feature_text_def prop_text_def
        featureDefinitionCall_def tool_error_def Let_def sim_defs)
  from st upd add show ?thesis
    by (simp add: tool_error_def)
qed

text \<open>
  C3, as the code has it. When the response to the write carries
  \<open>featureState.featureStatus = "ERROR"\<close> and the values that the text prints convert to
  strings (the new microversion and the error message of the state; for \<open>add\<close> also the
  name and the identifier of the feature), \<open>add_part_studio_feature\<close> and
  \<open>update_part_studio_feature\<close> return a result without \<open>isError\<close> whose one text block
  contains the warning that the feature resulted in an error state.
\<close>

theorem feature_error_state_is_success:
  assumes "onshapeApiRequest env ''GET'' (features_path d w e) Undefined None sent = (Inr cur, sent1)"
    and "has_stamps cur"
    and "getprop response ''featureState'' = Inr fs"
    and "getprop fs ''featureStatus'' = Inr (Str ''ERROR'')"
    and "js_String env (getprop_opt fs ''errorMessage'') = Inr msg"
    and "js_String env (getprop_opt response ''sourceMicroversion'') = Inr smv"
  shows "(onshapeApiRequest env ''POST'' (features_path d w e)
            (featureDefinitionCall feature cur) None sent1 = (Inr response, sent2)
          \<and> js_String env (getprop_opt (getprop_opt response ''feature'') ''name'') = Inr nm
          \<and> js_String env (getprop_opt (getprop_opt response ''feature'') ''featureId'') = Inr fi \<longrightarrow>
          isError (fst (add_part_studio_feature env d w e feature sent)) = None
          \<and> (\<exists>pre post. content (fst (add_part_studio_feature env d w e feature sent)) =
                [\<lparr>block_type = ''text'',
                  block_text = pre @ ''Warning: The added feature resulted in an error state.\<newline>'' @ post\<rparr>]))
       \<and> (encodeURIComponent env fid = Inr enc
          \<and> onshapeApiRequest env ''POST'' (features_path d w e @ ''/featureid/'' @ enc)
            (featureDefinitionCall feature cur) None sent1 = (Inr response, sent2) \<longrightarrow>
          isError (fst (update_part_studio_feature env d w e fid feature sent)) = None
          \<and> (\<exists>pre post. content (fst (update_part_studio_feature env d w e fid feature sent)) =
                [\<lparr>block_type = ''text'',
                  block_text = pre @ ''Warning: The updated feature resulted in an error state.\<newline>'' @ post\<rparr>]))"
proof -
  have add: "isError (fst (add_part_studio_feature env d w e feature sent)) = None
          \<and> (\<exists>pre post. content (fst (add_part_studio_feature env d w e feature sent)) =
                [\<lparr>block_type = ''text'',
                  block_text = pre @ ''Warning: The added feature resulted in an error state.\<newline>'' @ post\<rparr>])"
    if wr: "onshapeApiRequest env ''POST'' (features_path d w e)
            (featureDefinitionCall feature cur) None sent1 = (Inr response, sent2)"
      and nm: "js_String env (getprop_opt (getprop_opt response ''feature'') ''name'') = Inr nm"
      and fi: "js_String env (getprop_opt (getprop_opt response ''feature'') ''featureId'') = Inr fi"
  proof -
    obtain pre post where t: "add_feature_text env (featureDefinitionCall feature cur) response =
        Inr (pre @ ''Warning: The added feature resulted in an error state.\<newline>'' @ post)"
      using add_feature_text_error [OF assms(3,4,5,6) nm fi] by blast
    have "fst (add_part_studio_feature env d w e feature sent) =
        tool_text (pre @ ''Warning: The added feature resulted in an error state.\<newline>'' @ post)"
      using assms(1,2) wr t
      by (simp add: add_part_studio_feature_def add_part_studio_feature_try_def Let_def)
    then show ?thesis
      by (simp add: tool_text_def) blast
  qed
  have upd: "isError (fst (update_part_studio_feature env d w e fid feature sent)) = None
          \<and> (\<exists>pre post. content (fst (update_part_studio_feature env d w e fid feature sent)) =
                [\<lparr>block_type = ''text'',
                  block_text = pre @ ''Warning: The updated feature resulted in an error state.\<newline>'' @ post\<rparr>])"
    if enc: "encodeURIComponent env fid = Inr enc"
      and wr: "onshapeApiRequest env ''POST'' (features_path d w e @ ''/featureid/'' @ enc)
            (featureDefinitionCall feature cur) None sent1 = (Inr response, sent2)"
  proof -
    obtain pre post where t: "update_feature_text env fid response =
        Inr (pre @ ''Warning: The updated feature resulted in an error state.\<newline>'' @ post)"
      using update_feature_text_error [OF assms(3,4,5,6)] by blast
    have "fst (update_part_studio_feature env d w e fid feature sent) =
        tool_text (pre @ ''Warning: The updated feature resulted in an error state.\<newline>'' @ post)"
      using assms(1,2) enc wr t
      by (simp add: update_part_studio_feature_def update_part_studio_feature_try_def
          try_catch_def io_bind_def io_pure_def sum_bind_def)
    then show ?thesis
      by (simp add: tool_text_def) blast
  qed
  from add upd show ?thesis
    by blast
qed

theorem feature_error_state_is_success_witness:
  "fst (add_part_studio_feature
          (sim_env [sim_reply 200 ''OK'' snapshot_json, sim_reply 200 ''OK'' failed_feature_json] sim_table)
          ''D1'' ''W1'' ''E1'' (Obj []) []) =
     tool_text (''Feature added successfully.\<newline> Input: \<newline>{...}\<newline> Output: \<newline>{...}\<newline>'' @
                ''New Microversion: mv2\<newline>'' @
                ''Warning: The added feature resulted in an error state.\<newline>'')
   \<and> isError (fst (add_part_studio_feature
          (sim_env [sim_reply 200 ''OK'' snapshot_json, sim_reply 200 ''OK'' failed_feature_json] sim_table)
          ''D1'' ''W1'' ''E1'' (Obj []) [])) = None
   \<and> isError (fst (update_part_studio_feature
          (sim_env [sim_reply 200 ''OK'' snapshot_json, sim_reply 200 ''OK'' failed_feature_json] sim_table)
          ''D1'' ''W1'' ''E1'' ''F1'' (Obj []) [])) = None"
proof -
  let ?env = "sim_env [sim_reply 200 ''OK'' snapshot_json, sim_reply 200 ''OK'' failed_feature_json] sim_table"
  let ?get = "request_options ?env ''GET'' (features_path ''D1'' ''W1'' ''E1'') Undefined None"
  let ?fdc = "featureDefinitionCall (Obj []) snapshot"
  have rd: "onshapeApiRequest ?env ''GET'' (features_path ''D1'' ''W1'' ''E1'') Undefined None []
              = (Inr snapshot, [?get])"
    by (simp add: onshapeApiRequest_def sim_defs)
  have st: "has_stamps snapshot"
    by (simp add: has_stamps_def snapshot_def)
  have fs: "getprop failed_feature ''featureState'' = Inr (Obj [(''featureStatus'', Str ''ERROR'')])"
    by (simp add: failed_feature_def)
  have er: "getprop (Obj [(''featureStatus'', Str ''ERROR'')]) ''featureStatus'' = Inr (Str ''ERROR'')"
    by simp
  have wr_add: "onshapeApiRequest ?env ''POST'' (features_path ''D1'' ''W1'' ''E1'') ?fdc None [?get]
              = (Inr failed_feature,
                 [?get, request_options ?env ''POST'' (features_path ''D1'' ''W1'' ''E1'') ?fdc None])"
    by (simp add: onshapeApiRequest_def sim_defs)
  have enc: "encodeURIComponent ?env ''F1'' = Inr ''F1''"
    by (simp add: sim_env_def)
  have wr_upd: "onshapeApiRequest ?env ''POST''
                  (features_path ''D1'' ''W1'' ''E1'' @ ''/featureid/'' @ ''F1'') ?fdc None [?get]
              = (Inr failed_feature,
                 [?get, request_options ?env ''POST''
                    (features_path ''D1'' ''W1'' ''E1'' @ ''/featureid/'' @ ''F1'') ?fdc None])"
    by (simp add: onshapeApiRequest_def sim_defs)
  have text_add: "fst (add_part_studio_feature ?env ''D1'' ''W1'' ''E1'' (Obj []) []) =
     tool_text (''Feature added successfully.\<newline> Input: \<newline>{...}\<newline> Output: \<newline>{...}\<newline>'' @
                ''New Microversion: mv2\<newline>'' @
                ''Warning: The added feature resulted in an error state.\<newline>'')"
    using rd st wr_add
    by (simp add: add_part_studio_feature_def add_part_studio_feature_try_def Let_def
        add_feature_text_def feature_state_text_def sum_bind_def prop_text_def
        featureDefinitionCall_def failed_feature_def sim_env_def)
  have msg: "js_String ?env (getprop_opt (Obj [(''featureStatus'', Str ''ERROR'')]) ''errorMessage'') =
      Inr ''undefined''"
    by simp
  have smv: "js_String ?env (getprop_opt failed_feature ''sourceMicroversion'') = Inr ''mv2''"
    by (simp add: failed_feature_def)
  have nm: "js_String ?env (getprop_opt (getprop_opt failed_feature ''feature'') ''name'') =
      Inr ''undefined''"
    and fi: "js_String ?env (getprop_opt (getprop_opt failed_feature ''feature'') ''featureId'') =
      Inr ''undefined''"
    by (simp_all add: failed_feature_def)
  from feature_error_state_is_success
    [OF rd st fs er msg smv, where feature = "Obj []" and fid = "''F1''" and enc = "''F1''"
      and nm = "''undefined''" and fi = "''undefined''"]
    wr_add enc wr_upd nm fi text_add
  show ?thesis
    by simp
qed

lemma truthy_prop_truthy: "getprop v k = Inr x \<Longrightarrow> truthy x \<Longrightarrow> truthy v"
  by (cases v) (auto split: if_splits)

text \<open>
  C5. When the snapshot read before the write has its three stamps, the tool issues
  exactly one more request, the write, straight after the read. The payload handed to
  the write is the object made of the caller's feature and of the three values read
  from the snapshot, each as it was read, and the body of the request is that object
  as \<open>JSON.stringify\<close> prints it.
\<close>

theorem write_payload_is_feature_and_stamps:
  assumes "onshapeApiRequest env ''GET'' (features_path d w e) Undefined None sent = (Inr cur, sent1)"
    and "getprop cur ''serializationVersion'' = Inr sv" and "truthy sv"
    and "getprop cur ''sourceMicroversion'' = Inr smv" and "truthy smv"
    and "getprop cur ''libraryVersion'' = Inr lv" and "truthy lv"
  shows "snd (add_part_studio_feature env d w e feature sent) =
           sent @ [request_options env ''GET'' (features_path d w e) Undefined None,
                   request_options env ''POST'' (features_path d w e)
                     (Obj [(''feature'', feature), (''serializationVersion'', sv),
                           (''sourceMicroversion'', smv), (''libraryVersion'', lv)]) None]
       \<and> (encodeURIComponent env fid = Inr enc \<longrightarrow>
            snd (update_part_studio_feature env d w e fid feature sent) =
              sent @ [request_options env ''GET'' (features_path d w e) Undefined None,
                      request_options env ''POST'' (features_path d w e @ ''/featureid/'' @ enc)
                        (Obj [(''feature'', feature), (''serializationVersion'', sv),
                              (''sourceMicroversion'', smv), (''libraryVersion'', lv)]) None])
       \<and> body (request_options env ''POST'' path
                 (Obj [(''feature'', feature), (''serializationVersion'', sv),
                       (''sourceMicroversion'', smv), (''libraryVersion'', lv)]) None) =
           Some (JSON_stringify env
                 (Obj [(''feature'', feature), (''serializationVersion'', sv),
                       (''sourceMicroversion'', smv), (''libraryVersion'', lv)]))"
proof -
  let ?payload = "Obj [(''feature'', feature), (''serializationVersion'', sv),
                       (''sourceMicroversion'', smv), (''libraryVersion'', lv)]"
  let ?get = "request_options env ''GET'' (features_path d w e) Undefined None"
  from assms(2,3) have cur: "truthy cur"
    by (rule truthy_prop_truthy)
  have props: "getprop_opt cur ''serializationVersion'' = sv"
    "getprop_opt cur ''sourceMicroversion'' = smv" "getprop_opt cur ''libraryVersion'' = lv"
    using assms(2,4,6) by (simp_all add: getprop_opt_eq)
  have st: "has_stamps cur"
    using cur assms(3,5,7) by (simp add: has_stamps_def props)
  have fdc: "featureDefinitionCall feature cur = ?payload"
    by (simp add: featureDefinitionCall_def props)
  from assms(1) have sent1: "sent1 = sent @ [?get]"
    by (rule onshapeApiRequest_sentD)
  have add: "snd (add_part_studio_feature env d w e feature sent) =
      snd (onshapeApiRequest env ''POST'' (features_path d w e) ?payload None sent1)"
  proof -
    obtain r2 s2 where wr: "onshapeApiRequest env ''POST'' (features_path d w e) ?payload None sent1
        = (r2, s2)"
      by (cases "onshapeApiRequest env ''POST'' (features_path d w e) ?payload None sent1")
    show ?thesis
      using assms(1) st wr
      by (cases r2)
        (simp_all add: add_part_studio_feature_def add_part_studio_feature_try_def fdc Let_def
          split: sum.splits)
  qed
  have upd: "snd (update_part_studio_feature env d w e fid feature sent) =
      snd (onshapeApiRequest env ''POST'' (features_path d w e @ ''/featureid/'' @ enc)
             ?payload None sent1)"
    if enc: "encodeURIComponent env fid = Inr enc"
  proof -
    obtain r2 s2 where wr: "onshapeApiRequest env ''POST''
        (features_path d w e @ ''/featureid/'' @ enc) ?payload None sent1 = (r2, s2)"
      by (cases "onshapeApiRequest env ''POST''
        (features_path d w e @ ''/featureid/'' @ enc) ?payload None sent1")
    show ?thesis
      using assms(1) st wr enc
      by (cases r2)
        (simp_all add: update_part_studio_feature_def update_part_studio_feature_try_def fdc
          try_catch_def io_bind_def io_pure_def sum_bind_def split: sum.splits)
  qed
  show ?thesis
    using add upd by (simp add: onshapeApiRequest_sent sent1 request_options_def)
qed

theorem write_payload_is_feature_and_stamps_witness:
  "snd (add_part_studio_feature
          (sim_env [sim_reply 200 ''OK'' snapshot_json, sim_reply 200 ''OK'' unskewed_json] sim_table)
          ''D1'' ''W1'' ''E1'' (Obj [(''btType'', Str ''BTMFeature-134'')]) []) =
     [request_options
        (sim_env [sim_reply 200 ''OK'' snapshot_json, sim_reply 200 ''OK'' unskewed_json] sim_table)
        ''GET'' (features_path ''D1'' ''W1'' ''E1'') Undefined None,
      request_options
        (sim_env [sim_reply 200 ''OK'' snapshot_json, sim_reply 200 ''OK'' unskewed_json] sim_table)
        ''POST'' (features_path ''D1'' ''W1'' ''E1'')
        (Obj [(''feature'', Obj [(''btType'', Str ''BTMFeature-134'')]),
              (''serializationVersion'', Str ''1.2.4''),
              (''sourceMicroversion'', Str ''mv1''), (''libraryVersion'', Num 2014)]) None]
   \<and> snd (update_part_studio_feature
          (sim_env [sim_reply 200 ''OK'' snapshot_json, sim_reply 200 ''OK'' unskewed_json] sim_table)
          ''D1'' ''W1'' ''E1'' ''F1'' (Obj [(''btType'', Str ''BTMFeature-134'')]) []) =
     [request_options
        (sim_env [sim_reply 200 ''OK'' snapshot_json, sim_reply 200 ''OK'' unskewed_json] sim_table)
        ''GET'' (features_path ''D1'' ''W1'' ''E1'') Undefined None,
      request_options
        (sim_env [sim_reply 200 ''OK'' snapshot_json, sim_reply 200 ''OK'' unskewed_json] sim_table)
        ''POST'' (features_path ''D1'' ''W1'' ''E1'' @ ''/featureid/'' @ ''F1'')
        (Obj [(''feature'', Obj [(''btType'', Str ''BTMFeature-134'')]),
              (''serializationVersion'', Str ''1.2.4''),
              (''sourceMicroversion'', Str ''mv1''), (''libraryVersion'', Num 2014)]) None]"
proof -
  let ?env = "sim_env [sim_reply 200 ''OK'' snapshot_json, sim_reply 200 ''OK'' unskewed_json] sim_table"
  let ?get = "request_options ?env ''GET'' (features_path ''D1'' ''W1'' ''E1'') Undefined None"
  have rd: "onshapeApiRequest ?env ''GET'' (features_path ''D1'' ''W1'' ''E1'') Undefined None []
              = (Inr snapshot, [?get])"
    by (simp add: onshapeApiRequest_def sim_defs)
  have sv: "getprop snapshot ''serializationVersion'' = Inr (Str ''1.2.4'')"
    and smv: "getprop snapshot ''sourceMicroversion'' = Inr (Str ''mv1'')"
    and lv: "getprop snapshot ''libraryVersion'' = Inr (Num 2014)"
    by (simp_all add: snapshot_def)
  have t: "truthy (Str ''1.2.4'')" "truthy (Str ''mv1'')" "truthy (Num 2014)"
    by simp_all
  have enc: "encodeURIComponent ?env ''F1'' = Inr ''F1''"
    by (simp add: sim_env_def)
  from write_payload_is_feature_and_stamps
    [OF rd sv t(1) smv t(2) lv t(3), of "Obj [(''btType'', Str ''BTMFeature-134'')]" "''F1''" "''F1''"]
    enc
  show ?thesis
    by simp
qed

text \<open>
  C4. The two mutation tools take a \<open>workspaceId\<close> and nothing that selects a version or
  a microversion: whatever identifier the caller passes in that place is addressed as a
  workspace. A call that passes the identifier of a version is not refused without
  network traffic; here it issues the read of the feature list.
\<close>

theorem version_id_reaches_backend_counterexample:
  "snd (add_part_studio_feature (sim_env [] sim_table) ''D1'' ''V1'' ''E1'' (Obj []) []) \<noteq> []
   \<and> snd (update_part_studio_feature (sim_env [] sim_table) ''D1'' ''V1'' ''E1'' ''F1'' (Obj []) [])
       \<noteq> []"
  by (simp add: add_part_studio_feature_def add_part_studio_feature_try_def
      update_part_studio_feature_def update_part_studio_feature_try_def
      try_catch_def io_bind_def onshapeApiRequest_def sim_env_def sim_fetch_def)

text \<open>
  C4, as the code has it. Every call of \<open>add_part_studio_feature\<close> and of
  \<open>update_part_studio_feature\<close> begins by issuing the read of the feature list, and the
  URL of that read is the workspace form
  \<open>/partstudios/d/{documentId}/w/{workspaceId}/e/{elementId}/features\<close> under the base
  URL.
\<close>

theorem mutation_reads_workspace_first:
  "(\<exists>rest. snd (add_part_studio_feature env d w e feature sent) =
       sent @ request_options env ''GET'' (features_path d w e) Undefined None # rest)
   \<and> (\<exists>rest. snd (update_part_studio_feature env d w e fid feature sent) =
       sent @ request_options env ''GET'' (features_path d w e) Undefined None # rest)
   \<and> url (request_options env ''GET'' (features_path d w e) Undefined None) =
       ONSHAPE_API_URL env @ ''/partstudios/d/'' @ d @ ''/w/'' @ w @ ''/e/'' @ e @ ''/features''"
proof -
  let ?get = "request_options env ''GET'' (features_path d w e) Undefined None"
  obtain r1 where rd: "onshapeApiRequest env ''GET'' (features_path d w e) Undefined None sent
      = (r1, sent @ [?get])"
    using onshapeApiRequest_sent [of env "''GET''" "features_path d w e" Undefined None sent]
    by (cases "onshapeApiRequest env ''GET'' (features_path d w e) Undefined None sent") simp
  have wr: "\<exists>r2. onshapeApiRequest env ''POST'' path bdy None (sent @ [?get])
      = (r2, sent @ [?get, request_options env ''POST'' path bdy None])" for path bdy
    using onshapeApiRequest_sent [of env "''POST''" path bdy None "sent @ [?get]"]
    by (cases "onshapeApiRequest env ''POST'' path bdy None (sent @ [?get])") simp
  have add: "\<exists>rest. snd (add_part_studio_feature env d w e feature sent) = sent @ ?get # rest"
  proof (cases r1)
    case (Inl err)
    with rd show ?thesis
      by (simp add: add_part_studio_feature_def add_part_studio_feature_try_def)
  next
    case (Inr cur)
    obtain r2 where "onshapeApiRequest env ''POST'' (features_path d w e)
        (featureDefinitionCall feature cur) None (sent @ [?get])
      = (r2, sent @ [?get, request_options env ''POST'' (features_path d w e)
           (featureDefinitionCall feature cur) None])"
      using wr by blast
    with rd Inr show ?thesis
      by (cases r2)
        (simp_all add: add_part_studio_feature_def add_part_studio_feature_try_def Let_def
          split: sum.splits)
  qed
  have upd: "\<exists>rest. snd (update_part_studio_feature env d w e fid feature sent) = sent @ ?get # rest"
  proof (cases r1)
    case (Inl err)
    with rd show ?thesis
      by (simp add: update_part_studio_feature_def update_part_studio_feature_try_def
          try_catch_def io_bind_def)
  next
    case cur: (Inr cur)
    show ?thesis
    proof (cases "encodeURIComponent env fid")
      case (Inl err)
      with rd cur show ?thesis
        by (simp add: update_part_studio_feature_def update_part_studio_feature_try_def
            try_catch_def io_bind_def io_pure_def)
    next
      case (Inr enc)
      obtain r2 where "onshapeApiRequest env ''POST'' (features_path d w e @ ''/featureid/'' @ enc)
          (featureDefinitionCall feature cur) None (sent @ [?get])
        = (r2, sent @ [?get, request_options env ''POST''
             (features_path d w e @ ''/featureid/'' @ enc) (featureDefinitionCall feature cur) None])"
        using wr by blast
      with rd cur Inr show ?thesis
        by (cases r2)
          (simp_all add: update_part_studio_feature_def update_part_studio_feature_try_def
            try_catch_def io_bind_def io_pure_def sum_bind_def split: sum.splits)
    qed
  qed
  have "url ?get = ONSHAPE_API_URL env @ ''/partstudios/d/'' @ d @ ''/w/'' @ w @ ''/e/'' @ e @ ''/features''"
    by (simp add: request_options_def features_path_def)
  with add upd show ?thesis
    by blast
qed

theorem mutation_reads_workspace_first_witness:
  "snd (add_part_studio_feature (sim_env [] sim_table) ''D1'' ''V1'' ''E1'' (Obj []) []) =
     [request_options (sim_env [] sim_table) ''GET'' (features_path ''D1'' ''V1'' ''E1'')
        Undefined None]
   \<and> url (request_options (sim_env [] sim_table) ''GET'' (features_path ''D1'' ''V1'' ''E1'')
        Undefined None) =
     ''https://cad.onshape.com/api/v1/partstudios/d/D1/w/V1/e/E1/features''"
proof -
  have "snd (add_part_studio_feature (sim_env [] sim_table) ''D1'' ''V1'' ''E1'' (Obj []) []) =
     [request_options (sim_env [] sim_table) ''GET'' (features_path ''D1'' ''V1'' ''E1'')
        Undefined None]"
    by (simp add: add_part_studio_feature_def add_part_studio_feature_try_def
        onshapeApiRequest_def sim_env_def sim_fetch_def)
  moreover have "ONSHAPE_API_URL (sim_env [] sim_table) = ''https://cad.onshape.com/api/v1''"
    by (simp add: sim_env_def)
  ultimately show ?thesis
    using mutation_reads_workspace_first
      [of "sim_env [] sim_table" "''D1''" "''V1''" "''E1''" "Obj []" "[]" "''F1''"]
    by simp
qed

text \<open>
  C1. A response to the write that carries \<open>microversionSkew\<close> is not reported by
  \<open>update_part_studio_feature\<close>: the text it builds does not depend on that property,
  and at the simulated response flagged with a skew the tool returns the text it returns
  without the flag, with the new microversion and no warning. \<open>delete_part_studio_feature\<close>
  reads the property and adds a warning to its text at the same response.
\<close>

theorem update_ignores_skew_indicator:
  "update_feature_text env fid (Obj ((''microversionSkew'', v) # kvs)) =
     update_feature_text env fid (Obj kvs)
   \<and> update_part_studio_feature
       (sim_env [sim_reply 200 ''OK'' snapshot_json, sim_reply 200 ''OK'' skewed_json] sim_table)
       ''D1'' ''W1'' ''E1'' ''F1'' (Obj []) [] =
     (tool_text (''Feature '' @ [CHR 0x22] @ ''F1'' @ [CHR 0x22] @ '' updated successfully.\<newline>'' @
                 ''New Microversion: mv2\<newline>''),
      [request_options
         (sim_env [sim_reply 200 ''OK'' snapshot_json, sim_reply 200 ''OK'' skewed_json] sim_table)
         ''GET'' (features_path ''D1'' ''W1'' ''E1'') Undefined None,
       request_options
         (sim_env [sim_reply 200 ''OK'' snapshot_json, sim_reply 200 ''OK'' skewed_json] sim_table)
         ''POST'' (features_path ''D1'' ''W1'' ''E1'' @ ''/featureid/F1'')
         (featureDefinitionCall (Obj []) snapshot) None])
   \<and> fst (update_part_studio_feature
       (sim_env [sim_reply 200 ''OK'' snapshot_json, sim_reply 200 ''OK'' unskewed_json] sim_table)
       ''D1'' ''W1'' ''E1'' ''F1'' (Obj []) []) =
     tool_text (''Feature '' @ [CHR 0x22] @ ''F1'' @ [CHR 0x22] @ '' updated successfully.\<newline>'' @
                ''New Microversion: mv2\<newline>'')
   \<and> fst (delete_part_studio_feature
       (sim_env [sim_reply 200 ''OK'' skewed_json] sim_table)
       ''D1'' ''W1'' ''E1'' ''F1'' []) =
     tool_text (''Feature '' @ [CHR 0x22] @ ''F1'' @ [CHR 0x22] @ '' deleted successfully.\<newline>'' @
                ''Warning: Microversion skew detected during deletion.\<newline>'')"
proof -
  have general: "update_feature_text env fid (Obj ((''microversionSkew'', v) # kvs)) =
      update_feature_text env fid (Obj kvs)"
  proof -
    have go: "getprop_opt (Obj ((''microversionSkew'', v) # kvs)) k = getprop_opt (Obj kvs) k"
      if "k \<noteq> ''microversionSkew''" for k
      using that by simp
    have pt: "prop_text env (Obj ((''microversionSkew'', v) # kvs)) ''sourceMicroversion'' =
        prop_text env (Obj kvs) ''sourceMicroversion''"
      by (simp add: prop_text_def)
    have fs: "feature_state_text env ''updated'' (Obj ((''microversionSkew'', v) # kvs)) =
        feature_state_text env ''updated'' (Obj kvs)"
      by (rule ext)
        (simp add: feature_state_text_def go Let_def del: getprop_opt.simps cong: if_cong)
    show ?thesis
      by (simp only: update_feature_text_def pt fs)
  qed
  have skew: "update_part_studio_feature
       (sim_env [sim_reply 200 ''OK'' snapshot_json, sim_reply 200 ''OK'' skewed_json] sim_table)
       ''D1'' ''W1'' ''E1'' ''F1'' (Obj []) [] =
     (tool_text (''Feature '' @ [CHR 0x22] @ ''F1'' @ [CHR 0x22] @ '' updated successfully.\<newline>'' @
                 ''New Microversion: mv2\<newline>''),
      [request_options
         (sim_env [sim_reply 200 ''OK'' snapshot_json, sim_reply 200 ''OK'' skewed_json] sim_table)
         ''GET'' (features_path ''D1'' ''W1'' ''E1'') Undefined None,
       request_options
         (sim_env [sim_reply 200 ''OK'' snapshot_json, sim_reply 200 ''OK'' skewed_json] sim_table)
         ''POST'' (features_path ''D1'' ''W1'' ''E1'' @ ''/featureid/F1'')
         (featureDefinitionCall (Obj []) snapshot) None])"
    by (simp add: update_part_studio_feature_def update_part_studio_feature_try_def
        try_catch_def io_bind_def io_pure_def sum_bind_def onshapeApiRequest_def
        has_stamps_def update_feature_text_def feature_state_text_def prop_text_def
        nonempty_def js_gt_def Let_def sim_defs)
  have plain: "fst (update_part_studio_feature
       (sim_env [sim_reply 200 ''OK'' snapshot_json, sim_reply 200 ''OK'' unskewed_json] sim_table)
       ''D1'' ''W1'' ''E1'' ''F1'' (Obj []) []) =
     tool_text (''Feature '' @ [CHR 0x22] @ ''F1'' @ [CHR 0x22] @ '' updated successfully.\<newline>'' @
                ''New Microversion: mv2\<newline>'')"
    by (simp add: update_part_studio_feature_def update_part_studio_feature_try_def
        try_catch_def io_bind_def io_pure_def sum_bind_def onshapeApiRequest_def
        has_stamps_def update_feature_text_def feature_state_text_def prop_text_def
        nonempty_def js_gt_def Let_def sim_defs)
  have del: "fst (delete_part_studio_feature
       (sim_env [sim_reply 200 ''OK'' skewed_json] sim_table)
       ''D1'' ''W1'' ''E1'' ''F1'' []) =
     tool_text (''Feature '' @ [CHR 0x22] @ ''F1'' @ [CHR 0x22] @ '' deleted successfully.\<newline>'' @
                ''Warning: Microversion skew detected during deletion.\<newline>'')"
    by (simp add: delete_part_studio_feature_def delete_part_studio_feature_try_def
        try_catch_def io_bind_def io_pure_def sum_bind_def onshapeApiRequest_def
        delete_feature_text_def prop_text_def nonempty_def js_gt_def Let_def sim_defs)
  from general skew plain del show ?thesis
    by blast
qed

section \<open>Properties of list_elements and of the helpers\<close>

lemma elementType_enum_nonempty: "t \<in> set elementType_enum \<Longrightarrow> t \<noteq> []"
  by (auto simp: elementType_enum_def)

text \<open>
  C10. \<open>list_elements\<close> issues one request. Without an \<open>elementType\<close> its query is the
  pair \<open>elementType = PARTSTUDIO,ASSEMBLY\<close>; with one of the element types of the schema
  (none of which is empty) the query is that value under the same key. The URL of the
  request is the base URL, the path of the elements of the document state, a question
  mark and the serialised query.
\<close>

theorem list_elements_query_filter:
  "snd (list_elements env d wvm wvmid None sent) =
     sent @ [request_options env ''GET''
               (''/documents/d/'' @ d @ ''/'' @ wvm @ ''/'' @ wvmid @ ''/elements'') Undefined
               (Some [(''elementType'', ''PARTSTUDIO,ASSEMBLY'')])]
   \<and> (t \<in> set elementType_enum \<longrightarrow>
        snd (list_elements env d wvm wvmid (Some t) sent) =
          sent @ [request_options env ''GET''
                    (''/documents/d/'' @ d @ ''/'' @ wvm @ ''/'' @ wvmid @ ''/elements'') Undefined
                    (Some [(''elementType'', t)])])
   \<and> url (request_options env ''GET'' path Undefined (Some [(''elementType'', v)])) =
        ONSHAPE_API_URL env @ path @ ''?'' @ URLSearchParams_toString env [(''elementType'', v)]"
proof -
  have sent: "snd (list_elements env d wvm wvmid elementType sent) =
      sent @ [request_options env ''GET''
                (''/documents/d/'' @ d @ ''/'' @ wvm @ ''/'' @ wvmid @ ''/elements'') Undefined
                (Some (list_elements_query elementType))]" for elementType
  proof -
    let ?path = "''/documents/d/'' @ d @ ''/'' @ wvm @ ''/'' @ wvmid @ ''/elements''"
    obtain r where "onshapeApiRequest env ''GET'' ?path Undefined
        (Some (list_elements_query elementType)) sent =
      (r, sent @ [request_options env ''GET'' ?path Undefined (Some (list_elements_query elementType))])"
      using onshapeApiRequest_sent
        [of env "''GET''" ?path Undefined "Some (list_elements_query elementType)" sent]
      by (cases "onshapeApiRequest env ''GET'' ?path Undefined
            (Some (list_elements_query elementType)) sent") simp
    then show ?thesis
      by (cases r)
        (simp_all add: list_elements_def list_elements_try_def try_catch_def io_bind_def
          io_pure_def split: sum.splits)
  qed
  have none: "list_elements_query None = [(''elementType'', ''PARTSTUDIO,ASSEMBLY'')]"
    by (simp add: list_elements_query_def)
  have some: "list_elements_query (Some t) = [(''elementType'', t)]" if "t \<in> set elementType_enum"
    using elementType_enum_nonempty [OF that] by (simp add: list_elements_query_def)
  show ?thesis
    using sent [of None] sent [of "Some t"] none some
    by (simp add: request_options_def)
qed

theorem list_elements_query_filter_witness:
  "map url (snd (list_elements (sim_env [] sim_table) ''D1'' ''w'' ''W1'' None [])) =
     [''https://cad.onshape.com/api/v1/documents/d/D1/w/W1/elements?elementType=PARTSTUDIO%2CASSEMBLY'']
   \<and> map url (snd (list_elements (sim_env [] sim_table) ''D1'' ''w'' ''W1'' (Some ''DRAWING'') [])) =
     [''https://cad.onshape.com/api/v1/documents/d/D1/w/W1/elements?elementType=DRAWING'']"
proof -
  have m: "''DRAWING'' \<in> set elementType_enum"
    by (simp add: elementType_enum_def)
  from list_elements_query_filter
    [of "sim_env [] sim_table" "''D1''" "''w''" "''W1''" "[]" "''DRAWING''"] m
  show ?thesis
    by (simp add: request_options_def sim_env_def)
qed

text \<open>
  C9. \<open>getDefaultWorkspace\<close>, \<open>findPartStudioByName\<close> and \<open>findAssemblyByName\<close> return a
  value on every input: whenever their request fails, and more generally whenever
  anything in their \<open>try\<close> block throws, the value is \<open>undefined\<close>.
\<close>

theorem helpers_swallow_failures:
  "(onshapeApiRequest env ''GET'' (''/documents/'' @ d) Undefined None sent = (Inl err, sent')
      \<or> getDefaultWorkspace_try env d sent = (Inl err, sent')
    \<longrightarrow> getDefaultWorkspace env d sent = (Undefined, sent'))
   \<and> (onshapeApiRequest env ''GET'' (''/documents/d/'' @ d @ ''/w/'' @ w @ ''/elements'') Undefined
         (Some [(''elementType'', ''PARTSTUDIO'')]) sent = (Inl err, sent')
      \<or> findByName_try env ''PARTSTUDIO'' d w name sent = (Inl err, sent')
    \<longrightarrow> findPartStudioByName env d w name sent = (Undefined, sent'))
   \<and> (onshapeApiRequest env ''GET'' (''/documents/d/'' @ d @ ''/w/'' @ w @ ''/elements'') Undefined
         (Some [(''elementType'', ''ASSEMBLY'')]) sent = (Inl err, sent')
      \<or> findByName_try env ''ASSEMBLY'' d w name sent = (Inl err, sent')
    \<longrightarrow> findAssemblyByName env d w name sent = (Undefined, sent'))"
  by (auto simp: getDefaultWorkspace_def getDefaultWorkspace_try_def findPartStudioByName_def
      findAssemblyByName_def findByName_try_def try_catch_def io_bind_def)

theorem helpers_swallow_failures_witness:
  "getDefaultWorkspace (sim_env [sim_reply 404 ''Not Found'' ''no such document''] sim_table)
       ''D1'' [] =
     (Undefined,
      [request_options (sim_env [sim_reply 404 ''Not Found'' ''no such document''] sim_table)
         ''GET'' ''/documents/D1'' Undefined None])
   \<and> findPartStudioByName (sim_env [] sim_table) ''D1'' ''W1'' ''Part Studio 1'' [] =
     (Undefined,
      [request_options (sim_env [] sim_table) ''GET'' ''/documents/d/D1/w/W1/elements'' Undefined
         (Some [(''elementType'', ''PARTSTUDIO'')])])
   \<and> findAssemblyByName (sim_env [sim_reply 200 ''OK'' snapshot_json] sim_table)
       ''D1'' ''W1'' ''Assembly 1'' [] =
     (Undefined,
      [request_options (sim_env [sim_reply 200 ''OK'' snapshot_json] sim_table)
         ''GET'' ''/documents/d/D1/w/W1/elements'' Undefined
         (Some [(''elementType'', ''ASSEMBLY'')])])"
proof -
  let ?e1 = "sim_env [sim_reply 404 ''Not Found'' ''no such document''] sim_table"
  let ?e2 = "sim_env [] sim_table"
  let ?e3 = "sim_env [sim_reply 200 ''OK'' snapshot_json] sim_table"
  have n: "show_nat 404 = ''404''"
    by (simp add: show_nat.simps)
  have a: "onshapeApiRequest ?e1 ''GET'' (''/documents/'' @ ''D1'') Undefined None [] =
      (Inl (Error ''Onshape API Error: 404 Not Found - no such document''),
       [request_options ?e1 ''GET'' ''/documents/D1'' Undefined None])"
    by (simp add: onshapeApiRequest_def sim_defs n)
  have b: "onshapeApiRequest ?e2 ''GET'' (''/documents/d/'' @ ''D1'' @ ''/w/'' @ ''W1'' @ ''/elements'')
        Undefined (Some [(''elementType'', ''PARTSTUDIO'')]) [] =
      (Inl (FetchError ''connect ECONNREFUSED''),
       [request_options ?e2 ''GET'' ''/documents/d/D1/w/W1/elements'' Undefined
          (Some [(''elementType'', ''PARTSTUDIO'')])])"
    by (simp add: onshapeApiRequest_def sim_defs)
  have c: "findByName_try ?e3 ''ASSEMBLY'' ''D1'' ''W1'' ''Assembly 1'' [] =
      (Inl (TypeError ''elements.find is not a function''),
       [request_options ?e3 ''GET'' ''/documents/d/D1/w/W1/elements'' Undefined
          (Some [(''elementType'', ''ASSEMBLY'')])])"
    by (simp add: findByName_try_def io_bind_def io_pure_def sum_bind_def
        onshapeApiRequest_def sim_defs)
  from helpers_swallow_failures [of ?e1 "''D1''" "[]" _ _ "''W1''" "''x''"] a
  have 1: "getDefaultWorkspace ?e1 ''D1'' [] =
      (Undefined, [request_options ?e1 ''GET'' ''/documents/D1'' Undefined None])"
    by blast
  from helpers_swallow_failures [of ?e2 "''D1''" "[]" _ _ "''W1''" "''Part Studio 1''"] b
  have 2: "findPartStudioByName ?e2 ''D1'' ''W1'' ''Part Studio 1'' [] =
      (Undefined, [request_options ?e2 ''GET'' ''/documents/d/D1/w/W1/elements'' Undefined
          (Some [(''elementType'', ''PARTSTUDIO'')])])"
    by blast
  from helpers_swallow_failures [of ?e3 "''D1''" "[]" _ _ "''W1''" "''Assembly 1''"] c
  have 3: "findAssemblyByName ?e3 ''D1'' ''W1'' ''Assembly 1'' [] =
      (Undefined, [request_options ?e3 ''GET'' ''/documents/d/D1/w/W1/elements'' Undefined
          (Some [(''elementType'', ''ASSEMBLY'')])])"
    by blast
  from 1 2 3 show ?thesis
    by blast
qed

section \<open>Properties of the registered operations\<close>

lemma try_catch_thrown:
  "thrown block sent = Some (e, sent') \<Longrightarrow> try_catch block h sent = (h e, sent')"
  by (auto simp: thrown_def try_catch_def split: prod.splits sum.splits)

lemmas handler_defs =
  document_resource_def wvm_resource_def element_resource_def part_resource_def
  list_documents_def list_elements_def create_document_def create_part_studio_def
  create_assembly_def list_part_studio_feature_specs_def get_part_studio_features_def
  update_part_studio_feature_def delete_part_studio_feature_def get_assembly_definition_def
  add_assembly_instance_def transform_assembly_instances_def get_part_bounding_box_def
  get_element_bounding_box_def get_element_configuration_definition_def
  list_part_studio_sketches_def get_sketch_tessellation_def

text \<open>
  C7. Whatever the \<open>try\<close> block of a registered resource or tool handler throws, the
  handler returns: its reply is the error envelope (one text entry, \<open>isError: true\<close>),
  the text contains the message of the error, and the requests issued are those issued
  before the throw. The handler is a total function into replies, so nothing else leaves
  it.
\<close>

theorem handler_failure_is_error_envelope:
  assumes "handler_throws env c sent = Some (e, sent')"
  shows "error_envelope (fst (handle env c sent))
       \<and> (\<exists>pre post. reply_text (fst (handle env c sent)) = pre @ message e @ post)
       \<and> snd (handle env c sent) = sent'"
proof -
  have tool: "error_envelope (fst (as_tool (tool_error (pre @ message e), sent')))
       \<and> (\<exists>p post. reply_text (fst (as_tool (tool_error (pre @ message e), sent'))) =
             p @ message e @ post)
       \<and> snd (as_tool (tool_error (pre @ message e), sent')) = sent'" for pre
    by (auto simp: as_tool_def tool_error_def intro: exI [of _ pre])
  have resource: "error_envelope (fst (as_resource (resource_error href (pre @ message e), sent')))
       \<and> (\<exists>p post. reply_text (fst (as_resource (resource_error href (pre @ message e), sent'))) =
             p @ message e @ post)
       \<and> snd (as_resource (resource_error href (pre @ message e), sent')) = sent'" for pre href
    by (auto simp: as_resource_def resource_error_def intro: exI [of _ pre])
  show ?thesis
  proof (cases c)
    case (AddPartStudioFeature d w el feature)
    with assms obtain fdc where
      "add_part_studio_feature_try env d w el feature sent = (Inl (e, fdc), sent')"
      by (auto split: prod.splits sum.splits)
    then have "add_part_studio_feature env d w el feature sent =
        (tool_error (''Error adding feature: '' @ message e @ ''  + '' @
           (if fdc = Undefined then ''undefined'' else JSON_stringify_indent env fdc)), sent')"
      by (simp add: add_part_studio_feature_def)
    with AddPartStudioFeature show ?thesis
      by (auto simp: as_tool_def tool_error_def intro: exI [of _ "''Error adding feature: ''"])
  next
    case (UpdatePartStudioFeature d w el fid feature)
    with assms have "update_part_studio_feature env d w el fid feature sent =
        (tool_error ((''Error updating feature '' @ fid @ '': '') @ message e), sent')"
      by (simp add: handler_defs try_catch_thrown)
    with UpdatePartStudioFeature show ?thesis
      by (auto simp: as_tool_def tool_error_def
          intro: exI [of _ "''Error updating feature '' @ fid @ '': ''"])
  next
    case (DeletePartStudioFeature d w el fid)
    with assms have "delete_part_studio_feature env d w el fid sent =
        (tool_error ((''Error deleting feature '' @ fid @ '': '') @ message e), sent')"
      by (simp add: handler_defs try_catch_thrown)
    with DeletePartStudioFeature show ?thesis
      by (auto simp: as_tool_def tool_error_def
          intro: exI [of _ "''Error deleting feature '' @ fid @ '': ''"])
  next
    case (GetPartBoundingBox d wvm wvmid el partId configuration linkDocumentId)
    with assms have
      "get_part_bounding_box env d wvm wvmid el partId configuration linkDocumentId sent =
        (tool_error ((''Error getting part bounding box '' @ partId @ '': '') @ message e), sent')"
      by (simp add: handler_defs try_catch_thrown)
    with GetPartBoundingBox show ?thesis
      by (auto simp: as_tool_def tool_error_def
          intro: exI [of _ "''Error getting part bounding box '' @ partId @ '': ''"])
  next
    case (GetElementBoundingBox d wvm wvmid el configuration linkDocumentId)
    with assms have
      "get_element_bounding_box env d wvm wvmid el configuration linkDocumentId sent =
        (tool_error ((''Error getting element bounding box '' @ el @ '': '') @ message e), sent')"
      by (simp add: handler_defs try_catch_thrown)
    with GetElementBoundingBox show ?thesis
      by (auto simp: as_tool_def tool_error_def
          intro: exI [of _ "''Error getting element bounding box '' @ el @ '': ''"])
  qed (use assms tool resource in
      \<open>simp_all add: handler_defs try_catch_thrown del: append.simps\<close>)
qed

theorem handler_failure_is_error_envelope_witness:
  "handle (sim_env [] sim_table) ListDocuments [] =
     (ToolReply (tool_error ''Error listing documents: connect ECONNREFUSED''),
      [request_options (sim_env [] sim_table) ''GET'' ''/documents?filter=0&limit=20''
         Undefined None])
   \<and> error_envelope (fst (handle (sim_env [] sim_table) ListDocuments []))
   \<and> error_envelope
       (fst (handle (sim_env [sim_reply 200 ''OK'' ''null''] [(''null'', Null)])
          (PartResource ''onshape://document/D1/w/W1/element/E1/part/P1''
             (Obj [(''params'', Obj [(''documentId'', Str ''D1''), (''wvm'', Str ''w''),
                (''wvmid'', Str ''W1''), (''elementId'', Str ''E1''), (''partId'', Str ''P1'')])]))
          []))"
proof -
  let ?e1 = "sim_env [] sim_table"
  let ?e2 = "sim_env [sim_reply 200 ''OK'' ''null''] [(''null'', Null)]"
  let ?ctx = "Obj [(''params'', Obj [(''documentId'', Str ''D1''), (''wvm'', Str ''w''),
                (''wvmid'', Str ''W1''), (''elementId'', Str ''E1''), (''partId'', Str ''P1'')])]"
  have a: "handler_throws ?e1 ListDocuments [] =
      Some (FetchError ''connect ECONNREFUSED'',
            [request_options ?e1 ''GET'' ''/documents?filter=0&limit=20'' Undefined None])"
    by (simp add: thrown_def list_documents_try_def io_bind_def onshapeApiRequest_def
        sim_env_def sim_fetch_def)
  have b: "handler_throws ?e2 (PartResource ''onshape://document/D1/w/W1/element/E1/part/P1'' ?ctx) [] =
      Some (TypeError (''Cannot read properties of null (reading '' @ [CHR 0x27] @ ''properties'' @
                       [CHR 0x27] @ '')''),
            [request_options ?e2 ''GET'' ''/metadata/d/D1/w/W1/e/E1/pi/P1'' Undefined None])"
    by (simp add: thrown_def part_resource_try_def part_text_def io_bind_def io_pure_def
        sum_bind_def onshapeApiRequest_def sim_env_def sim_fetch_def sim_reply_def sim_parse_def)
  have c: "handle ?e1 ListDocuments [] =
     (ToolReply (tool_error ''Error listing documents: connect ECONNREFUSED''),
      [request_options ?e1 ''GET'' ''/documents?filter=0&limit=20'' Undefined None])"
    using a by (simp add: list_documents_def try_catch_thrown as_tool_def)
  from handler_failure_is_error_envelope [OF a] handler_failure_is_error_envelope [OF b] c
  show ?thesis
    by blast
qed

section \<open>Properties of the resource locator\<close>

















end
